theory Spec2Isabelle
  imports Main "HOL-Library.Word" "HOL-Library.Sublist"
begin

unbundle bit_operations_syntax

section \<open>JavaScript values\<close>

text \<open>
  Request parameters (\<^verbatim>\<open>req.body\<close>, \<^verbatim>\<open>req.query\<close>) are untyped at run time: a
  parameter is missing (\<^verbatim>\<open>undefined\<close>), a string, or some other value (a number, an
  array, an object, \<^verbatim>\<open>null\<close>, a boolean). Every check of the handlers has the shape
  \<^verbatim>\<open>!x || typeof x !== 'string'\<close> or \<^verbatim>\<open>!x || x !== 'literal'\<close>, so of a non-string only
  its truthiness can matter; it is kept as the argument of \<open>JOther\<close>.
  Strings are \<open>string\<close>; the only length that is measured (PKCE values) is measured on
  strings that must consist of ASCII characters to be accepted.
\<close>

datatype jsval = JUndefined | JString string | JOther bool

fun truthy :: "jsval \<Rightarrow> bool" where
  "truthy JUndefined = False"
| "truthy (JString s) = (s \<noteq> [])"
| "truthy (JOther b) = b"

fun typeof_string :: "jsval \<Rightarrow> bool" where
  "typeof_string (JString s) = True"
| "typeof_string v = False"

text \<open>The string held by a value that has passed a \<^verbatim>\<open>typeof x === 'string'\<close> check.\<close>

fun string_of :: "jsval \<Rightarrow> string" where
  "string_of (JString s) = s"
| "string_of v = []"

section \<open>Library functions used by the handlers\<close>

text \<open>
  \<^verbatim>\<open>Buffer.toString('base64url')\<close>: RFC 4648 section 5, without padding. Three bytes give
  four characters, a rest of two bytes gives three, a rest of one byte gives two.
\<close>

definition b64alphabet :: string where
  "b64alphabet = ''ABCDEFGHIJKLMNOPQRSTUVWXYZabcdefghijklmnopqrstuvwxyz0123456789-_''"

definition b64char :: "nat \<Rightarrow> char" where
  "b64char n = b64alphabet ! (n mod 64)"

fun base64url :: "8 word list \<Rightarrow> string" where
  "base64url (a # b # c # rest) =
     [b64char (unat a div 4),
      b64char ((unat a mod 4) * 16 + unat b div 16),
      b64char ((unat b mod 16) * 4 + unat c div 64),
      b64char (unat c mod 64)] @ base64url rest"
| "base64url [a, b] =
     [b64char (unat a div 4),
      b64char ((unat a mod 4) * 16 + unat b div 16),
      b64char ((unat b mod 16) * 4)]"
| "base64url [a] =
     [b64char (unat a div 4),
      b64char ((unat a mod 4) * 16)]"
| "base64url [] = []"

text \<open>
  A buffer of a fixed number of bytes (a SHA-256 digest, the result of
  \<^verbatim>\<open>randomBytes(n)\<close>) is a word of that many bits; \<open>buffer_bytes\<close> lists its bytes,
  most significant first.
\<close>

definition buffer_bytes :: "'a::len word \<Rightarrow> 8 word list" where
  "buffer_bytes w =
     map (\<lambda>i. ucast (drop_bit (8 * i) w)) (rev [0..<LENGTH('a) div 8])"

section \<open>PKCE (pkce.ts)\<close>

text \<open>
  \<^verbatim>\<open>createHash('sha256').update(s).digest()\<close> is the parameter \<open>sha256\<close> of everything
  that verifies PKCE: a function from strings to 32-byte digests, about which nothing
  else is assumed.
\<close>

definition verifyPKCE :: "(string \<Rightarrow> 256 word) \<Rightarrow> string \<Rightarrow> string \<Rightarrow> bool" where
  "verifyPKCE sha256 codeVerifier codeChallenge =
     (if codeVerifier = [] \<or> codeChallenge = [] then False
      else
        let hash = sha256 codeVerifier;
            computed = base64url (buffer_bytes hash)
        in computed = codeChallenge)"

text \<open>The character class \<^verbatim>\<open>[A-Za-z0-9\-._~]\<close>.\<close>

definition validChar :: "char \<Rightarrow> bool" where
  "validChar c =
     (let n = (of_char c :: nat)
      in (65 \<le> n \<and> n \<le> 90) \<or> (97 \<le> n \<and> n \<le> 122) \<or> (48 \<le> n \<and> n \<le> 57)
         \<or> c = CHR ''-'' \<or> c = CHR ''.'' \<or> c = CHR ''_'' \<or> c = CHR ''~'')"

definition validateCodeChallenge :: "string \<Rightarrow> bool" where
  "validateCodeChallenge codeChallenge =
     (if codeChallenge = [] then False
      else if length codeChallenge < 43 \<or> length codeChallenge > 128 then False
      else list_all validChar codeChallenge)"

definition validateCodeVerifier :: "string \<Rightarrow> bool" where
  "validateCodeVerifier codeVerifier =
     (if codeVerifier = [] then False
      else if length codeVerifier < 43 \<or> length codeVerifier > 128 then False
      else list_all validChar codeVerifier)"

section \<open>The database and its failures\<close>

text \<open>
  The handlers share one PostgreSQL pool. Its tables are lists of rows (the schema is not
  part of the sources, so no key is assumed unique: a query filters the list). A row of
  \<^verbatim>\<open>authorization_codes\<close> is kept in the shape \<^verbatim>\<open>getAuthCode\<close> maps it to
  (\<^verbatim>\<open>StoredAuthCode\<close>), a row of \<^verbatim>\<open>oauth_clients\<close> in the shape \<^verbatim>\<open>getClient\<close> maps
  it to (\<^verbatim>\<open>RegisteredClient\<close>). Times are milliseconds since the epoch; the server's
  \<^verbatim>\<open>Date.now()\<close> and the database's \<^verbatim>\<open>NOW()\<close> read the same clock.
\<close>

record StoredAuthCode =
  code :: string
  clientId :: string
  redirectUri :: string
  codeChallenge :: string
  codeChallengeMethod :: string
  scope :: "string option"
  createdAt :: nat
  expiresAt :: nat

record RegisteredClient =
  client_id :: string
  client_secret :: string
  client_name :: "string option"
  redirect_uris :: "string list"
  token_endpoint_auth_method :: string
  grant_types :: "string list"
  response_types :: "string list"
  client_scope :: "string option"
  client_createdAt :: nat

record AuthLog =
  log_event :: string
  log_client_id :: "string option"
  log_success :: bool
  log_error_message :: "string option"

text \<open>The statements the sources send, by table and key.\<close>

datatype query =
    InsertCode string
  | SelectCode string
  | DeleteCode string
  | InsertClient string
  | SelectClient string
  | InsertLog string

text \<open>
  \<open>schedule\<close> is what the environment decides for the queries to come, one entry for
  each: whether \<^verbatim>\<open>pool.query\<close> throws, and how many milliseconds pass before the
  database runs it. When the schedule is used up, queries succeed at once. \<open>trace\<close>
  records every query sent, with whether it threw. \<open>in_flight\<close> holds the codes of the
  \<^verbatim>\<open>DELETE\<close> statements that have been sent without being awaited and that the database
  has not run yet.
\<close>

record world =
  authorization_codes :: "StoredAuthCode list"
  oauth_clients :: "RegisteredClient list"
  auth_logs :: "AuthLog list"
  clock :: nat
  schedule :: "(bool \<times> nat) list"
  trace :: "(query \<times> bool) list"
  in_flight :: "string list"

text \<open>
  Sending a query and awaiting it: the clock advances, the schedule entry is consumed, the
  query is traced. The result says whether the query threw; a query that throws changes
  no table.
\<close>

definition pool_query :: "query \<Rightarrow> world \<Rightarrow> bool \<times> world" where
  "pool_query q w =
     (case schedule w of
        [] \<Rightarrow> (False, w\<lparr>trace := trace w @ [(q, False)]\<rparr>)
      | (threw, elapsed) # later \<Rightarrow>
          (threw, w\<lparr>clock := clock w + elapsed, schedule := later,
                     trace := trace w @ [(q, threw)]\<rparr>))"

section \<open>Authorization code storage (storage.ts)\<close>

definition CODE_EXPIRATION_MS :: nat where
  "CODE_EXPIRATION_MS = 10 * 60 * 1000"

text \<open>\<^verbatim>\<open>randomBytes(32)\<close> is the argument: the 32 bytes the generator returns.\<close>

definition generateAuthCode :: "256 word \<Rightarrow> string" where
  "generateAuthCode random = base64url (buffer_bytes random)"

text \<open>
  \<open>Inl ()\<close> is the \<^verbatim>\<open>Error('Failed to store authorization code')\<close> thrown when the
  insert fails. \<^verbatim>\<open>created_at\<close> is not among the inserted columns; the row gets the
  time of the insert.
\<close>

definition storeAuthCode ::
  "256 word \<Rightarrow> string \<Rightarrow> string \<Rightarrow> string \<Rightarrow> string \<Rightarrow> string option \<Rightarrow> world
     \<Rightarrow> (unit + string) \<times> world" where
  "storeAuthCode random cid ruri challenge method scp w =
     (let c = generateAuthCode random;
          expires = clock w + CODE_EXPIRATION_MS;
          (threw, w1) = pool_query (InsertCode c) w
      in if threw then (Inl (), w1)
         else (Inr c,
               w1\<lparr>authorization_codes := authorization_codes w1 @
                    [\<lparr>code = c, clientId = cid, redirectUri = ruri, codeChallenge = challenge,
                      codeChallengeMethod = method, scope = scp, createdAt = clock w1,
                      expiresAt = expires\<rparr>]\<rparr>))"

definition getAuthCode :: "string \<Rightarrow> world \<Rightarrow> StoredAuthCode option \<times> world" where
  "getAuthCode c w =
     (let (threw, w1) = pool_query (SelectCode c) w
      in if threw then (None, w1)
         else (case filter (\<lambda>row. code row = c \<and> expiresAt row > clock w1)
                      (authorization_codes w1) of
                 [] \<Rightarrow> (None, w1)
               | row # rows \<Rightarrow> (Some row, w1)))"

text \<open>
  \<^verbatim>\<open>deleteAuthCode\<close> is an async function, and the token handler, its only caller, calls
  it without \<^verbatim>\<open>await\<close>: the call sends the \<^verbatim>\<open>DELETE\<close> and returns, and the handler goes on,
  and answers, while the \<^verbatim>\<open>DELETE\<close> is in flight. So \<open>deleteAuthCode\<close> is the call: the
  schedule entry is consumed and the query traced, but the delay is not waited for (the
  clock stands) and no row goes yet. The entry says whether the \<^verbatim>\<open>DELETE\<close> will fail; a
  failure is caught and logged by the function and nothing is deleted. A \<^verbatim>\<open>DELETE\<close> that
  will not fail is in flight until the database has run it.
\<close>

definition deleteAuthCode :: "string \<Rightarrow> world \<Rightarrow> world" where
  "deleteAuthCode c w =
     (case schedule w of
        [] \<Rightarrow> w\<lparr>trace := trace w @ [(DeleteCode c, False)], in_flight := in_flight w @ [c]\<rparr>
      | (threw, elapsed) # later \<Rightarrow>
          w\<lparr>schedule := later, trace := trace w @ [(DeleteCode c, threw)],
            in_flight := (if threw then in_flight w else in_flight w @ [c])\<rparr>)"

text \<open>
  The database runs the \<^verbatim>\<open>DELETE\<close> statements in flight: every row of their codes goes.
  Nothing in the handlers decides when; in the model it happens between two requests
  (after the handler that sent a \<^verbatim>\<open>DELETE\<close> no query of the same request reads the codes).
\<close>

definition run_deletes :: "world \<Rightarrow> world" where
  "run_deletes w =
     w\<lparr>authorization_codes :=
         filter (\<lambda>row. code row \<notin> set (in_flight w)) (authorization_codes w),
       in_flight := []\<rparr>"

section \<open>Client registry (clients.ts)\<close>

definition generateClientId :: "128 word \<Rightarrow> string" where
  "generateClientId random = ''mcp-client-'' @ base64url (buffer_bytes random)"

definition generateClientSecret :: "256 word \<Rightarrow> string" where
  "generateClientSecret random = base64url (buffer_bytes random)"

text \<open>\<open>Inl ()\<close> is the \<^verbatim>\<open>Error('Failed to register OAuth client')\<close> thrown when the insert fails.\<close>

definition registerClient ::
  "128 word \<Rightarrow> 256 word \<Rightarrow> string option \<Rightarrow> string list \<Rightarrow> string \<Rightarrow> string list
     \<Rightarrow> string list \<Rightarrow> string option \<Rightarrow> world \<Rightarrow> (unit + RegisteredClient) \<times> world" where
  "registerClient randomId randomSecret clientName redirectUris tokenEndpointAuthMethod
       grantTypes responseTypes scp w =
     (let cid = generateClientId randomId;
          secret = generateClientSecret randomSecret;
          (threw, w1) = pool_query (InsertClient cid) w
      in if threw then (Inl (), w1)
         else
           (let client = \<lparr>client_id = cid, client_secret = secret, client_name = clientName,
                           redirect_uris = redirectUris,
                           token_endpoint_auth_method = tokenEndpointAuthMethod,
                           grant_types = grantTypes, response_types = responseTypes,
                           client_scope = scp, client_createdAt = clock w1\<rparr>
            in (Inr client, w1\<lparr>oauth_clients := oauth_clients w1 @ [client]\<rparr>)))"

definition getClient :: "string \<Rightarrow> world \<Rightarrow> RegisteredClient option \<times> world" where
  "getClient cid w =
     (let (threw, w1) = pool_query (SelectClient cid) w
      in if threw then (None, w1)
         else (case filter (\<lambda>row. client_id row = cid) (oauth_clients w1) of
                 [] \<Rightarrow> (None, w1)
               | row # rows \<Rightarrow> (Some row, w1)))"

definition validateClient ::
  "string \<Rightarrow> string \<Rightarrow> string \<Rightarrow> string \<Rightarrow> world \<Rightarrow> bool \<times> world" where
  "validateClient cid secret staticClientId staticClientSecret w =
     (if cid = staticClientId \<and> secret = staticClientSecret then (True, w)
      else
        (let (client, w1) = getClient cid w
         in case client of
              Some c \<Rightarrow> if client_secret c = secret then (True, w1) else (False, w1)
            | None \<Rightarrow> (False, w1)))"

definition isValidClientId :: "string \<Rightarrow> string \<Rightarrow> world \<Rightarrow> bool \<times> world" where
  "isValidClientId cid staticClientId w =
     (if cid = staticClientId then (True, w)
      else (let (client, w1) = getClient cid w in (client \<noteq> None, w1)))"

section \<open>Audit log (utils/audit-log.ts)\<close>

text \<open>
  \<^verbatim>\<open>options.clientId || null\<close> and \<^verbatim>\<open>options.errorMessage || null\<close> store an empty string
  as \<^verbatim>\<open>null\<close>. A failure to log is caught and changes nothing. The columns taken from the
  request (\<^verbatim>\<open>ip\<close>, \<^verbatim>\<open>user_agent\<close>) and \<^verbatim>\<open>metadata\<close>, which no caller passes, are left out.
\<close>

definition or_null :: "string option \<Rightarrow> string option" where
  "or_null v = (case v of None \<Rightarrow> None | Some s \<Rightarrow> if s = [] then None else Some s)"

definition logAuthEvent :: "string \<Rightarrow> bool \<Rightarrow> string option \<Rightarrow> string option \<Rightarrow> world \<Rightarrow> world" where
  "logAuthEvent event success cid errorMessage w =
     (let (threw, w1) = pool_query (InsertLog event) w
      in if threw then w1
         else w1\<lparr>auth_logs := auth_logs w1 @
                   [\<lparr>log_event = event, log_client_id = or_null cid, log_success = success,
                     log_error_message = or_null errorMessage\<rparr>]\<rparr>)"

section \<open>Configuration and responses (types/index.ts)\<close>

text \<open>
  The fields of \<^verbatim>\<open>OAuthConfig\<close> the handlers read. An optional array is \<open>None\<close> when it
  is not configured (an array, even an empty one, is truthy, so \<^verbatim>\<open>config.x || default\<close>
  takes the default only then).
\<close>

record OAuthConfig =
  cfg_clientId :: string
  cfg_clientSecret :: string
  apiKey :: string
  allowedRedirectPrefixes :: "string list option"
  scopes :: "string list option"

record TokenResponse =
  access_token :: string
  token_type :: string
  token_scope :: string

record ClientRegistrationResponse =
  resp_client_id :: string
  resp_client_secret :: string
  resp_client_id_issued_at :: nat
  resp_client_secret_expires_at :: nat
  resp_client_name :: "string option"
  resp_redirect_uris :: "string list"
  resp_token_endpoint_auth_method :: string
  resp_grant_types :: "string list"
  resp_response_types :: "string list"
  resp_scope :: "string option"

text \<open>
  \<^verbatim>\<open>new URL(s)\<close> is a parameter \<open>parseURL\<close> of the handlers that build one (\<open>None\<close> when
  the constructor throws). Of a URL the handlers read \<^verbatim>\<open>protocol\<close> and \<^verbatim>\<open>hostname\<close> and
  write \<^verbatim>\<open>searchParams\<close>; \<open>url_rest\<close> stands for everything else.
\<close>

record url =
  protocol :: string
  hostname :: string
  url_rest :: string
  searchParams :: "(string \<times> string) list"

text \<open>
  \<^verbatim>\<open>URLSearchParams.set\<close> (WHATWG URL): the first pair of that name gets the value and the
  other pairs of that name are removed; without such a pair, one is appended.
  \<^verbatim>\<open>URLSearchParams.get\<close> returns the value of the first pair of that name.
\<close>

fun searchParams_set :: "string \<Rightarrow> string \<Rightarrow> (string \<times> string) list \<Rightarrow> (string \<times> string) list" where
  "searchParams_set name v [] = [(name, v)]"
| "searchParams_set name v ((k, x) # ps) =
     (if k = name then (name, v) # filter (\<lambda>p. fst p \<noteq> name) ps
      else (k, x) # searchParams_set name v ps)"

fun searchParams_get :: "string \<Rightarrow> (string \<times> string) list \<Rightarrow> string option" where
  "searchParams_get name [] = None"
| "searchParams_get name ((k, x) # ps) = (if k = name then Some x else searchParams_get name ps)"

text \<open>
  What a handler sends: \<^verbatim>\<open>res.status(n).json({error, error_description})\<close>,
  \<^verbatim>\<open>res.json(tokenResponse)\<close> (status 200), \<^verbatim>\<open>res.status(201).json(response)\<close>,
  \<^verbatim>\<open>res.redirect(url)\<close> (status 302; the URL is kept parsed) and
  \<^verbatim>\<open>res.render('login', {error: null, originalUrl})\<close>.
\<close>

datatype response =
    JsonError nat string string
  | JsonToken TokenResponse
  | JsonCreated ClientRegistrationResponse
  | Redirect url
  | RenderLogin string

definition sendError :: "string \<Rightarrow> string \<Rightarrow> response" where
  "sendError err description = JsonError 400 err description"

text \<open>\<^verbatim>\<open>Array.prototype.join(' ')\<close>.\<close>

fun join_space :: "string list \<Rightarrow> string" where
  "join_space [] = []"
| "join_space [x] = x"
| "join_space (x # y # ys) = x @ '' '' @ join_space (y # ys)"

definition default_scopes :: "string list" where
  "default_scopes = [''mcp:tools:*'', ''mcp:resources:*'', ''mcp:prompts:*'']"

section \<open>Token endpoint (oauth/token.ts)\<close>

text \<open>
  The body of a token request, as parsed: each parameter may be anything. (A request with
  no parsed body at all makes the handler's destructuring throw; it is answered
  \<^verbatim>\<open>server_error\<close> by the \<^verbatim>\<open>catch\<close> and is not part of the model.)
\<close>

record TokenBody =
  body_grant_type :: jsval
  body_code :: jsval
  body_redirect_uri :: jsval
  body_code_verifier :: jsval
  body_client_id :: jsval
  body_client_secret :: jsval

text \<open>
  \<^verbatim>\<open>handleToken\<close> is one function in the source; it is split here at its comments.
  \<open>token_redeem\<close> is the part from "Validate code_verifier format" to the end: it runs
  with the resolved \<^verbatim>\<open>client_id\<close>, after the client has been authenticated.
\<close>

definition token_redeem ::
  "(string \<Rightarrow> 256 word) \<Rightarrow> OAuthConfig \<Rightarrow> TokenBody \<Rightarrow> string \<Rightarrow> world \<Rightarrow> response \<times> world" where
  "token_redeem sha256 config body cid w =
     (let c = string_of (body_code body);
          redirect_uri = string_of (body_redirect_uri body);
          code_verifier = string_of (body_code_verifier body)
      in
      if \<not> validateCodeVerifier code_verifier then
        (sendError ''invalid_request'' ''Invalid code_verifier format'', w)
      else
        (let (storedCode, w1) = getAuthCode c w
         in case storedCode of
              None \<Rightarrow> (sendError ''invalid_grant'' ''Invalid or expired authorization code'', w1)
            | Some stored \<Rightarrow>
                if clientId stored \<noteq> cid then
                  (sendError ''invalid_grant'' ''client_id mismatch'', deleteAuthCode c w1)
                else if redirectUri stored \<noteq> redirect_uri then
                  (sendError ''invalid_grant'' ''redirect_uri mismatch'', deleteAuthCode c w1)
                else if \<not> verifyPKCE sha256 code_verifier (codeChallenge stored) then
                  (let w2 = deleteAuthCode c w1;
                       w3 = logAuthEvent ''token_failure'' False (Some cid)
                              (Some ''PKCE verification failed'') w2
                   in (sendError ''invalid_grant'' ''PKCE verification failed'', w3))
                else
                  (let w2 = deleteAuthCode c w1;
                       w3 = logAuthEvent ''token_exchange'' True (Some cid) None w2;
                       scps = (case scopes config of None \<Rightarrow> default_scopes | Some l \<Rightarrow> l)
                   in (JsonToken
                         \<lparr>access_token = apiKey config, token_type = ''Bearer'',
                          token_scope =
                            (case scope stored of
                               None \<Rightarrow> join_space scps
                             | Some s \<Rightarrow> if s = [] then join_space scps else s)\<rparr>,
                       w3))))"

text \<open>
  \<open>token_authenticate\<close> is the part from "Get client from database to check auth method"
  to the credential check; \<open>Inl\<close> is the error response sent, \<open>Inr ()\<close> lets the request
  go on.
\<close>

definition token_authenticate ::
  "OAuthConfig \<Rightarrow> TokenBody \<Rightarrow> string \<Rightarrow> world \<Rightarrow> (response + unit) \<times> world" where
  "token_authenticate config body cid w =
     (let (client, w1) = getClient cid w;
          isStaticClient = (cid = cfg_clientId config);
          authMethod = (case client of
                          None \<Rightarrow> ''client_secret_post''
                        | Some cl \<Rightarrow> token_endpoint_auth_method cl)
      in
      if authMethod = ''none'' then
        (if client = None \<and> \<not> isStaticClient then
           (Inl (sendError ''invalid_client'' ''Invalid client_id''), w1)
         else (Inr (), w1))
      else if \<not> truthy (body_client_secret body) \<or> \<not> typeof_string (body_client_secret body) then
        (Inl (sendError ''invalid_client'' ''Missing or invalid client_secret''), w1)
      else
        (let (isValid, w2) =
               validateClient cid (string_of (body_client_secret body))
                 (cfg_clientId config) (cfg_clientSecret config) w1
         in if \<not> isValid then
              (Inl (sendError ''invalid_client'' ''Invalid client_id or client_secret''), w2)
            else (Inr (), w2)))"

text \<open>
  \<open>token_resolve\<close> is the start of the handler: the parameter checks and the
  \<^verbatim>\<open>client_id\<close> workaround. \<open>Inr\<close> is the resolved \<^verbatim>\<open>client_id\<close>.
\<close>

definition token_resolve :: "TokenBody \<Rightarrow> world \<Rightarrow> (response + string) \<times> world" where
  \<open>token_resolve body w =
     (if \<not> truthy (body_grant_type body) \<or> body_grant_type body \<noteq> JString ''authorization_code'' then
        (Inl (sendError ''unsupported_grant_type''
                ''Only "authorization_code" grant_type is supported''), w)
      else if \<not> truthy (body_code body) \<or> \<not> typeof_string (body_code body) then
        (Inl (sendError ''invalid_request'' ''Missing or invalid code''), w)
      else if \<not> truthy (body_redirect_uri body) \<or> \<not> typeof_string (body_redirect_uri body) then
        (Inl (sendError ''invalid_request'' ''Missing or invalid redirect_uri''), w)
      else if \<not> truthy (body_code_verifier body) \<or> \<not> typeof_string (body_code_verifier body) then
        (Inl (sendError ''invalid_request'' ''Missing or invalid code_verifier''), w)
      else if \<not> truthy (body_client_id body) \<or> \<not> typeof_string (body_client_id body) then
        (let (tempCode, w1) = getAuthCode (string_of (body_code body)) w
         in case tempCode of
              None \<Rightarrow> (Inl (sendError ''invalid_request'' ''Missing or invalid client_id''), w1)
            | Some stored \<Rightarrow>
                if clientId stored \<noteq> [] then (Inr (clientId stored), w1)
                else (Inl (sendError ''invalid_request'' ''Missing or invalid client_id''), w1))
      else (Inr (string_of (body_client_id body)), w))\<close>

definition handleToken ::
  "(string \<Rightarrow> 256 word) \<Rightarrow> OAuthConfig \<Rightarrow> TokenBody \<Rightarrow> world \<Rightarrow> response \<times> world" where
  "handleToken sha256 config body w =
     (case token_resolve body w of
        (Inl resp, w1) \<Rightarrow> (resp, w1)
      | (Inr cid, w1) \<Rightarrow>
          (case token_authenticate config body cid w1 of
             (Inl resp, w2) \<Rightarrow> (resp, w2)
           | (Inr u, w2) \<Rightarrow> token_redeem sha256 config body cid w2))"

section \<open>Authorization endpoint (oauth/authorize.ts)\<close>

text \<open>The query of an authorize request, as parsed: each parameter may be anything.\<close>

record AuthorizeQuery =
  q_client_id :: jsval
  q_redirect_uri :: jsval
  q_response_type :: jsval
  q_code_challenge :: jsval
  q_code_challenge_method :: jsval
  q_state :: jsval
  q_scope :: jsval

record AuthorizationRequest =
  ar_client_id :: string
  ar_redirect_uri :: string
  ar_response_type :: string
  ar_code_challenge :: string
  ar_code_challenge_method :: string
  ar_state :: "string option"
  ar_scope :: "string option"

definition isValidRedirectUri :: "string \<Rightarrow> string list \<Rightarrow> bool" where
  "isValidRedirectUri uri allowedPrefixes =
     list_ex (\<lambda>p. prefix p uri) allowedPrefixes"

text \<open>
  \<open>Inl ()\<close> is an exception leaving \<^verbatim>\<open>approveAndRedirect\<close>: the error of
  \<^verbatim>\<open>storeAuthCode\<close>, or the \<^verbatim>\<open>TypeError\<close> of \<^verbatim>\<open>new URL\<close> (thrown after the code has
  been stored).
\<close>

definition approveAndRedirect ::
  "(string \<Rightarrow> url option) \<Rightarrow> 256 word \<Rightarrow> AuthorizationRequest \<Rightarrow> world
     \<Rightarrow> (unit + response) \<times> world" where
  "approveAndRedirect parseURL random authReq w =
     (case storeAuthCode random (ar_client_id authReq) (ar_redirect_uri authReq)
             (ar_code_challenge authReq) (ar_code_challenge_method authReq)
             (ar_scope authReq) w of
        (Inl e, w1) \<Rightarrow> (Inl (), w1)
      | (Inr c, w1) \<Rightarrow>
          (case parseURL (ar_redirect_uri authReq) of
             None \<Rightarrow> (Inl (), w1)
           | Some redirectUrl \<Rightarrow>
               (let u1 = redirectUrl\<lparr>searchParams :=
                            searchParams_set ''code'' c (searchParams redirectUrl)\<rparr>;
                    u2 = (case ar_state authReq of
                            None \<Rightarrow> u1
                          | Some s \<Rightarrow>
                              if s \<noteq> [] then
                                u1\<lparr>searchParams := searchParams_set ''state'' s (searchParams u1)\<rparr>
                              else u1)
                in (Inr (Redirect u2), w1))))"

text \<open>
  The six parameter checks at the start of \<^verbatim>\<open>handleAuthorize\<close>: \<open>Some\<close> is the error
  sent by the first check that fails.
\<close>

definition authorize_validate :: "AuthorizeQuery \<Rightarrow> response option" where
  \<open>authorize_validate query =
     (if \<not> truthy (q_client_id query) \<or> \<not> typeof_string (q_client_id query) then
        Some (sendError ''invalid_request'' ''Missing or invalid client_id'')
      else if \<not> truthy (q_redirect_uri query) \<or> \<not> typeof_string (q_redirect_uri query) then
        Some (sendError ''invalid_request'' ''Missing or invalid redirect_uri'')
      else if \<not> truthy (q_response_type query) \<or> q_response_type query \<noteq> JString ''code'' then
        Some (sendError ''unsupported_response_type'' ''Only "code" response_type is supported'')
      else if \<not> truthy (q_code_challenge query) \<or> \<not> typeof_string (q_code_challenge query) then
        Some (sendError ''invalid_request'' ''Missing or invalid code_challenge'')
      else if \<not> truthy (q_code_challenge_method query)
              \<or> q_code_challenge_method query \<noteq> JString ''S256'' then
        Some (sendError ''invalid_request'' ''Only "S256" code_challenge_method is supported'')
      else if \<not> validateCodeChallenge (string_of (q_code_challenge query)) then
        Some (sendError ''invalid_request'' ''Invalid code_challenge format'')
      else None)\<close>

definition default_prefixes :: "string list" where
  "default_prefixes = [''https://claude.ai/'', ''http://localhost:'']"

text \<open>
  The redirect check of \<^verbatim>\<open>handleAuthorize\<close>: against the prefixes for the static
  client, against the registered URIs of the client read from the registry otherwise.
\<close>

definition authorize_redirect_check ::
  "OAuthConfig \<Rightarrow> string \<Rightarrow> string \<Rightarrow> world \<Rightarrow> bool \<times> world" where
  "authorize_redirect_check config cid redirect_uri w =
     (let allowedPrefixes =
            (case allowedRedirectPrefixes config of None \<Rightarrow> default_prefixes | Some l \<Rightarrow> l)
      in if cid = cfg_clientId config then
           (isValidRedirectUri redirect_uri allowedPrefixes, w)
         else
           (let (client, w1) = getClient cid w
            in case client of
                 None \<Rightarrow> (False, w1)
               | Some cl \<Rightarrow> (redirect_uri \<in> set (redirect_uris cl), w1)))"

text \<open>
  \<open>authenticated\<close> is \<^verbatim>\<open>req.session.authenticated\<close>, \<open>originalUrl\<close> is
  \<^verbatim>\<open>req.originalUrl\<close>, \<open>random\<close> the bytes \<^verbatim>\<open>randomBytes(32)\<close> returns if a code is
  generated. An exception is answered by the handler's \<^verbatim>\<open>catch\<close>.
\<close>

definition handleAuthorize ::
  "(string \<Rightarrow> url option) \<Rightarrow> OAuthConfig \<Rightarrow> 256 word \<Rightarrow> AuthorizeQuery \<Rightarrow> bool \<Rightarrow> string
     \<Rightarrow> world \<Rightarrow> response \<times> world" where
  "handleAuthorize parseURL config random query authenticated originalUrl w =
     (case authorize_validate query of
        Some resp \<Rightarrow> (resp, w)
      | None \<Rightarrow>
          (let cid = string_of (q_client_id query);
               redirect_uri = string_of (q_redirect_uri query);
               (clientIdValid, w1) = isValidClientId cid (cfg_clientId config) w
           in if \<not> clientIdValid then
                (sendError ''unauthorized_client'' ''Invalid client_id'', w1)
              else
                (let (redirectUriValid, w2) = authorize_redirect_check config cid redirect_uri w1
                 in if \<not> redirectUriValid then
                      (sendError ''invalid_request'' ''Unauthorized redirect_uri'', w2)
                    else
                      (let authReq =
                             \<lparr>ar_client_id = cid, ar_redirect_uri = redirect_uri,
                              ar_response_type = string_of (q_response_type query),
                              ar_code_challenge = string_of (q_code_challenge query),
                              ar_code_challenge_method = string_of (q_code_challenge_method query),
                              ar_state = (if typeof_string (q_state query)
                                          then Some (string_of (q_state query)) else None),
                              ar_scope = (if typeof_string (q_scope query)
                                          then Some (string_of (q_scope query)) else None)\<rparr>
                       in if authenticated then
                            (case approveAndRedirect parseURL random authReq w2 of
                               (Inl e, w3) \<Rightarrow>
                                 (sendError ''server_error'' ''Internal server error'', w3)
                             | (Inr resp, w3) \<Rightarrow> (resp, w3))
                          else (RenderLogin originalUrl, w2)))))"

section \<open>Registration endpoint (oauth/register.ts)\<close>

text \<open>The registration metadata the handler reads, typed as \<^verbatim>\<open>ClientRegistrationRequest\<close>.\<close>

record ClientRegistrationRequest =
  reg_client_name :: "string option"
  reg_redirect_uris :: "string list option"
  reg_token_endpoint_auth_method :: "string option"
  reg_grant_types :: "string list option"
  reg_response_types :: "string list option"
  reg_scope :: "string option"

text \<open>The loops over the request's lists: \<open>Some\<close> is the error sent at the first bad element.\<close>

fun check_redirect_uris :: "(string \<Rightarrow> url option) \<Rightarrow> string list \<Rightarrow> response option" where
  "check_redirect_uris parseURL [] = None"
| "check_redirect_uris parseURL (uri # uris) =
     (case parseURL uri of
        None \<Rightarrow> Some (JsonError 400 ''invalid_redirect_uri'' (''Malformed redirect URI: '' @ uri))
      | Some u \<Rightarrow>
          (let isHttps = (protocol u = ''https:'');
               isLocalhost = (hostname u = ''localhost'' \<or> hostname u = ''127.0.0.1'')
           in if \<not> isHttps \<and> \<not> isLocalhost then
                Some (JsonError 400 ''invalid_redirect_uri''
                        (''Invalid redirect URI: '' @ uri @ ''. Must use HTTPS or localhost.''))
              else check_redirect_uris parseURL uris))"

fun check_grant_types :: "string list \<Rightarrow> response option" where
  "check_grant_types [] = None"
| "check_grant_types (grantType # rest) =
     (if grantType \<notin> set [''authorization_code'', ''refresh_token''] then
        Some (JsonError 400 ''invalid_client_metadata''
                (''Unsupported grant_type: '' @ grantType
                 @ ''. Supported: authorization_code, refresh_token''))
      else check_grant_types rest)"

fun check_response_types :: "string list \<Rightarrow> response option" where
  "check_response_types [] = None"
| "check_response_types (responseType # rest) =
     (if responseType \<notin> set [''code''] then
        Some (JsonError 400 ''invalid_client_metadata''
                (''Unsupported response_type: '' @ responseType @ ''. Supported: code''))
      else check_response_types rest)"

definition handleRegister ::
  "(string \<Rightarrow> url option) \<Rightarrow> 128 word \<Rightarrow> 256 word \<Rightarrow> ClientRegistrationRequest \<Rightarrow> world
     \<Rightarrow> response \<times> world" where
  "handleRegister parseURL randomId randomSecret registrationRequest w =
     (let redirectUris = (case reg_redirect_uris registrationRequest of None \<Rightarrow> [] | Some l \<Rightarrow> l);
          tokenEndpointAuthMethod =
            (case reg_token_endpoint_auth_method registrationRequest of
               None \<Rightarrow> ''client_secret_basic''
             | Some m \<Rightarrow> if m = [] then ''client_secret_basic'' else m);
          grantTypes = (case reg_grant_types registrationRequest of
                          None \<Rightarrow> [''authorization_code''] | Some l \<Rightarrow> l);
          responseTypes = (case reg_response_types registrationRequest of
                             None \<Rightarrow> [''code''] | Some l \<Rightarrow> l)
      in
      if ''authorization_code'' \<in> set grantTypes \<and> length redirectUris = 0 then
        (JsonError 400 ''invalid_redirect_uri''
           ''redirect_uris is required for authorization_code grant'', w)
      else
        (case check_redirect_uris parseURL redirectUris of
           Some resp \<Rightarrow> (resp, w)
         | None \<Rightarrow>
             if tokenEndpointAuthMethod
                  \<notin> set [''client_secret_post'', ''client_secret_basic'', ''none''] then
               (JsonError 400 ''invalid_client_metadata''
                  (''Unsupported token_endpoint_auth_method: '' @ tokenEndpointAuthMethod
                   @ ''. Supported: client_secret_post, client_secret_basic, none''), w)
             else
               (case check_grant_types grantTypes of
                  Some resp \<Rightarrow> (resp, w)
                | None \<Rightarrow>
                    (case check_response_types responseTypes of
                       Some resp \<Rightarrow> (resp, w)
                     | None \<Rightarrow>
                         (case registerClient randomId randomSecret
                                 (reg_client_name registrationRequest) redirectUris
                                 tokenEndpointAuthMethod grantTypes responseTypes
                                 (reg_scope registrationRequest) w of
                            (Inl e, w1) \<Rightarrow>
                              (JsonError 500 ''server_error'' ''Internal server error'', w1)
                          | (Inr client, w1) \<Rightarrow>
                              (JsonCreated
                                 \<lparr>resp_client_id = client_id client,
                                  resp_client_secret = client_secret client,
                                  resp_client_id_issued_at = client_createdAt client div 1000,
                                  resp_client_secret_expires_at = 0,
                                  resp_client_name = client_name client,
                                  resp_redirect_uris = redirect_uris client,
                                  resp_token_endpoint_auth_method =
                                    token_endpoint_auth_method client,
                                  resp_grant_types = grant_types client,
                                  resp_response_types = response_types client,
                                  resp_scope = client_scope client\<rparr>,
                               w1))))))"

section \<open>Observations on a run\<close>

text \<open>
  \<open>has_code c w\<close>: the table holds a row for the code, expired or not. \<open>sent w w'\<close>: the
  queries sent between the world \<open>w\<close> and a later world \<open>w'\<close>. \<open>quiet w w'\<close>: between the
  two worlds the table of codes has not changed and no \<^verbatim>\<open>DELETE\<close> was sent.
\<close>

definition has_code :: "string \<Rightarrow> world \<Rightarrow> bool" where
  "has_code c w = list_ex (\<lambda>row. code row = c) (authorization_codes w)"

definition sent :: "world \<Rightarrow> world \<Rightarrow> (query \<times> bool) list" where
  "sent w w' = drop (length (trace w)) (trace w')"

fun is_delete :: "query \<Rightarrow> bool" where
  "is_delete (DeleteCode c) = True"
| "is_delete q = False"

definition quiet :: "world \<Rightarrow> world \<Rightarrow> bool" where
  "quiet w w1 \<longleftrightarrow> authorization_codes w1 = authorization_codes w \<and>
     (\<exists>xs. trace w1 = trace w @ xs \<and> (\<forall>x \<in> set xs. \<not> is_delete (fst x)))"

text \<open>
  Flipping bit \<open>j\<close> of character \<open>i\<close> of a string: the single-bit mutations of a
  verifier or a challenge.
\<close>

definition mutate_bit :: "nat \<Rightarrow> nat \<Rightarrow> string \<Rightarrow> string" where
  "mutate_bit i j s = s[i := char_of (flip_bit j (of_char (s ! i) :: nat))]"

section \<open>Requests, one after the other\<close>

text \<open>
  The three endpoints of \<^verbatim>\<open>setupOAuth\<close> that query the tables of codes and clients (the
  login handler and the metadata endpoints send no such query), called one request after
  the other, and what the environment does in between: the database runs the \<^verbatim>\<open>DELETE\<close>
  statements in flight, time passes, the schedule of the queries to come is set. An
  authorize request carries the bytes \<^verbatim>\<open>randomBytes(32)\<close> returns if it comes to issue a
  code; \<open>may_issue\<close> is that code.
\<close>

datatype event =
    TokenRequest TokenBody
  | AuthorizeRequest "256 word" AuthorizeQuery bool string
  | RegisterRequest "128 word" "256 word" ClientRegistrationRequest
  | DeletesRun
  | Elapse nat
  | Plan "(bool \<times> nat) list"

fun step ::
  "(string \<Rightarrow> 256 word) \<Rightarrow> (string \<Rightarrow> url option) \<Rightarrow> OAuthConfig \<Rightarrow> event \<Rightarrow> world \<Rightarrow> world" where
  "step sha256 parseURL config (TokenRequest body) w = snd (handleToken sha256 config body w)"
| "step sha256 parseURL config (AuthorizeRequest random q authenticated originalUrl) w =
     snd (handleAuthorize parseURL config random q authenticated originalUrl w)"
| "step sha256 parseURL config (RegisterRequest randomId randomSecret req) w =
     snd (handleRegister parseURL randomId randomSecret req w)"
| "step sha256 parseURL config DeletesRun w = run_deletes w"
| "step sha256 parseURL config (Elapse n) w = w\<lparr>clock := clock w + n\<rparr>"
| "step sha256 parseURL config (Plan s) w = w\<lparr>schedule := s\<rparr>"

fun run ::
  "(string \<Rightarrow> 256 word) \<Rightarrow> (string \<Rightarrow> url option) \<Rightarrow> OAuthConfig \<Rightarrow> event list \<Rightarrow> world
     \<Rightarrow> world" where
  "run sha256 parseURL config [] w = w"
| "run sha256 parseURL config (e # es) w =
     run sha256 parseURL config es (step sha256 parseURL config e w)"

fun may_issue :: "event \<Rightarrow> string option" where
  "may_issue (AuthorizeRequest random q authenticated originalUrl) = Some (generateAuthCode random)"
| "may_issue e = None"

section \<open>A concrete deployment\<close>

text \<open>
  The inputs of the closed theorems below. The verifier and challenge are the pair of
  RFC 7636, appendix B, and \<open>ex_mutated_verifier\<close> is that verifier with the lowest bit of
  its first character flipped; \<open>ex_sha256\<close> is SHA-256 on these two strings, the only ones
  the theorems below hash (and an arbitrary digest elsewhere). \<open>ex_parseURL\<close> is
  \<^verbatim>\<open>new URL\<close> on the two redirect URIs used. The worlds are those reached by registering
  a public client (\<open>ex_world_registered\<close>), issuing it a code (\<open>ex_world_issued\<close>) and
  redeeming the code: \<open>ex_world_answered\<close> when the token is returned, the \<^verbatim>\<open>DELETE\<close> in
  flight; \<open>ex_world_redeemed\<close> once the database has run it; \<open>ex_world_delete_failed\<close>
  when the \<^verbatim>\<open>DELETE\<close> throws.
\<close>

definition ex_verifier :: string where
  "ex_verifier = ''dBjftJeZ4CVP-mB92K27uhbUJU1p1r_wW1gFWFOEjXk''"

definition ex_challenge :: string where
  "ex_challenge = ''E9Melhoa2OwvFrEMTJguCHaoeK1t8URWbuGJSstw-cM''"

definition ex_mutated_verifier :: string where
  "ex_mutated_verifier = ''eBjftJeZ4CVP-mB92K27uhbUJU1p1r_wW1gFWFOEjXk''"

definition ex_sha256 :: "string \<Rightarrow> 256 word" where
  "ex_sha256 s =
     (if s = ex_verifier then 0x13d31e961a1ad8ec2f16b10c4c982e0876a878ad6df144566ee1894acb70f9c3
      else if s = ex_mutated_verifier then
        0xc98ffec422783521a264d62e249b830fc2e3c9e0dec352008cba5f94bae16dcb
      else 0)"

definition ex_parseURL :: "string \<Rightarrow> url option" where
  "ex_parseURL s =
     (if s = ''http://localhost:9999/cb'' then
        Some \<lparr>protocol = ''http:'', hostname = ''localhost'', url_rest = s, searchParams = []\<rparr>
      else if s = ''https://claude.ai/callback'' then
        Some \<lparr>protocol = ''https:'', hostname = ''claude.ai'', url_rest = s, searchParams = []\<rparr>
      else None)"

definition ex_config :: OAuthConfig where
  "ex_config = \<lparr>cfg_clientId = ''static-client'', cfg_clientSecret = ''static-secret'',
                 apiKey = ''api-key'', allowedRedirectPrefixes = None, scopes = None\<rparr>"

definition ex_world0 :: world where
  "ex_world0 = \<lparr>authorization_codes = [], oauth_clients = [], auth_logs = [],
                 clock = 1000, schedule = [], trace = [], in_flight = []\<rparr>"

definition ex_registration :: ClientRegistrationRequest where
  "ex_registration = \<lparr>reg_client_name = None, reg_redirect_uris = Some [''http://localhost:9999/cb''],
      reg_token_endpoint_auth_method = Some ''none'', reg_grant_types = None,
      reg_response_types = None, reg_scope = None\<rparr>"

definition ex_client_id :: string where
  "ex_client_id = ''mcp-client-AAAAAAAAAAAAAAAAAAAAAQ''"

definition ex_client :: RegisteredClient where
  "ex_client = \<lparr>client_id = ex_client_id,
      client_secret = ''AAAAAAAAAAAAAAAAAAAAAAAAAAAAAAAAAAAAAAAAAAI'', client_name = None,
      redirect_uris = [''http://localhost:9999/cb''], token_endpoint_auth_method = ''none'',
      grant_types = [''authorization_code''], response_types = [''code''],
      client_scope = None, client_createdAt = 1000\<rparr>"

definition ex_world_registered :: world where
  "ex_world_registered = \<lparr>authorization_codes = [], oauth_clients = [ex_client], auth_logs = [],
      clock = 1000, schedule = [], trace = [(InsertClient ex_client_id, False)], in_flight = []\<rparr>"

definition ex_query :: AuthorizeQuery where
  "ex_query = \<lparr>q_client_id = JString ex_client_id,
     q_redirect_uri = JString ''http://localhost:9999/cb'',
     q_response_type = JString ''code'', q_code_challenge = JString ex_challenge,
     q_code_challenge_method = JString ''S256'', q_state = JString ''xyz'', q_scope = JUndefined\<rparr>"

definition ex_code :: string where
  "ex_code = ''AAAAAAAAAAAAAAAAAAAAAAAAAAAAAAAAAAAAAAAAAAM''"

definition ex_stored :: StoredAuthCode where
  "ex_stored = \<lparr>code = ex_code, clientId = ex_client_id, redirectUri = ''http://localhost:9999/cb'',
      codeChallenge = ex_challenge, codeChallengeMethod = ''S256'', scope = None,
      createdAt = 1000, expiresAt = 601000\<rparr>"

definition ex_world_issued :: world where
  "ex_world_issued = \<lparr>authorization_codes = [ex_stored], oauth_clients = [ex_client], auth_logs = [],
      clock = 1000, schedule = [],
      trace = [(InsertClient ex_client_id, False), (SelectClient ex_client_id, False),
               (SelectClient ex_client_id, False), (InsertCode ex_code, False)],
      in_flight = []\<rparr>"

definition ex_body :: TokenBody where
  "ex_body = \<lparr>body_grant_type = JString ''authorization_code'', body_code = JString ex_code,
      body_redirect_uri = JString ''http://localhost:9999/cb'',
      body_code_verifier = JString ex_verifier, body_client_id = JString ex_client_id,
      body_client_secret = JUndefined\<rparr>"

definition ex_token_response :: TokenResponse where
  "ex_token_response = \<lparr>access_token = ''api-key'', token_type = ''Bearer'',
      token_scope = ''mcp:tools:* mcp:resources:* mcp:prompts:*''\<rparr>"

definition ex_success_log :: AuthLog where
  "ex_success_log = \<lparr>log_event = ''token_exchange'', log_client_id = Some ex_client_id,
      log_success = True, log_error_message = None\<rparr>"

definition ex_world_answered :: world where
  "ex_world_answered = ex_world_issued
     \<lparr>auth_logs := [ex_success_log],
      trace := trace ex_world_issued @
        [(SelectClient ex_client_id, False), (SelectCode ex_code, False),
         (DeleteCode ex_code, False), (InsertLog ''token_exchange'', False)],
      in_flight := [ex_code]\<rparr>"

definition ex_world_redeemed :: world where
  "ex_world_redeemed = ex_world_issued
     \<lparr>authorization_codes := [], auth_logs := [ex_success_log],
      trace := trace ex_world_issued @
        [(SelectClient ex_client_id, False), (SelectCode ex_code, False),
         (DeleteCode ex_code, False), (InsertLog ''token_exchange'', False)]\<rparr>"

definition ex_world_delete_failed :: world where
  "ex_world_delete_failed = ex_world_issued
     \<lparr>auth_logs := [ex_success_log],
      trace := trace ex_world_issued @
        [(SelectClient ex_client_id, False), (SelectCode ex_code, False),
         (DeleteCode ex_code, True), (InsertLog ''token_exchange'', False)]\<rparr>"

definition ex_static_query :: AuthorizeQuery where
  "ex_static_query = \<lparr>q_client_id = JString ''static-client'',
     q_redirect_uri = JString ''https://claude.ai/callback'',
     q_response_type = JString ''code'', q_code_challenge = JString ex_challenge,
     q_code_challenge_method = JString ''S256'', q_state = JUndefined, q_scope = JUndefined\<rparr>"

definition ex_registration_response :: ClientRegistrationResponse where
  "ex_registration_response = \<lparr>resp_client_id = ex_client_id,
     resp_client_secret = ''AAAAAAAAAAAAAAAAAAAAAAAAAAAAAAAAAAAAAAAAAAI'',
     resp_client_id_issued_at = 1, resp_client_secret_expires_at = 0, resp_client_name = None,
     resp_redirect_uris = [''http://localhost:9999/cb''],
     resp_token_endpoint_auth_method = ''none'', resp_grant_types = [''authorization_code''],
     resp_response_types = [''code''], resp_scope = None\<rparr>"

section \<open>Effects of the storage operations\<close>

lemma length_base64url: "length (base64url bs) = (4 * length bs + 2) div 3"
  by (induction bs rule: base64url.induct) simp_all

lemma length_buffer_bytes: "length (buffer_bytes (w :: 'a::len word)) = LENGTH('a) div 8"
  by (simp add: buffer_bytes_def)

lemma getAuthCode_clock: "clock (snd (getAuthCode c w)) = clock (snd (pool_query (SelectCode c) w))"
  by (simp add: getAuthCode_def split: prod.splits list.splits)

lemma getAuthCode_codes: "authorization_codes (snd (getAuthCode c w)) = authorization_codes w"
  by (auto simp: getAuthCode_def pool_query_def split: prod.splits list.splits)

lemma pool_query_effect:
  assumes "pool_query q w = (f, w1)"
  shows "authorization_codes w1 = authorization_codes w" "oauth_clients w1 = oauth_clients w"
    "auth_logs w1 = auth_logs w" "trace w1 = trace w @ [(q, f)]" "in_flight w1 = in_flight w"
  using assms by (auto simp: pool_query_def split: list.splits prod.splits)

lemma pool_query_throws:
  "schedule w = (True, d) # rest \<Longrightarrow> fst (pool_query q w) = True"
  by (simp add: pool_query_def)

lemma getAuthCode_effect:
  assumes "getAuthCode c w = (r, w1)"
  shows "authorization_codes w1 = authorization_codes w" "oauth_clients w1 = oauth_clients w"
    "\<exists>f. trace w1 = trace w @ [(SelectCode c, f)]" "in_flight w1 = in_flight w"
  using assms
  by (auto simp: getAuthCode_def split: prod.splits list.splits if_splits dest: pool_query_effect)

lemma getAuthCode_Some:
  assumes "getAuthCode c w = (Some row, w1)"
  shows "row \<in> set (authorization_codes w)" "code row = c" "clock w1 < expiresAt row"
proof -
  obtain f w0 where q: "pool_query (SelectCode c) w = (f, w0)" by (cases "pool_query (SelectCode c) w")
  from assms q have w: "w1 = w0" and nf: "\<not> f"
    by (auto simp: getAuthCode_def split: if_splits list.splits)
  from assms q nf obtain rows where
    "filter (\<lambda>row. code row = c \<and> expiresAt row > clock w0) (authorization_codes w0) = row # rows"
    by (auto simp: getAuthCode_def split: if_splits list.splits)
  then have "row \<in> set (filter (\<lambda>row. code row = c \<and> expiresAt row > clock w0) (authorization_codes w0))"
    by simp
  then show "row \<in> set (authorization_codes w)" "code row = c" "clock w1 < expiresAt row"
    using pool_query_effect(1)[OF q] w by auto
qed

lemma getAuthCode_absent:
  "\<not> has_code c w \<Longrightarrow> fst (getAuthCode c w) = None"
  by (cases "getAuthCode c w"; cases "fst (getAuthCode c w)")
     (auto simp: has_code_def list_ex_iff dest: getAuthCode_Some)

lemma getAuthCode_throws:
  "schedule w = (True, d) # rest \<Longrightarrow> fst (getAuthCode c w) = None"
  by (simp add: getAuthCode_def pool_query_def)

lemma getClient_throws:
  "schedule w = (True, d) # rest \<Longrightarrow> fst (getClient cid w) = None"
  by (simp add: getClient_def pool_query_def)

lemma getClient_effect:
  assumes "getClient cid w = (r, w1)"
  shows "authorization_codes w1 = authorization_codes w" "oauth_clients w1 = oauth_clients w"
    "\<exists>f. trace w1 = trace w @ [(SelectClient cid, f)]" "in_flight w1 = in_flight w"
  using assms
  by (auto simp: getClient_def split: prod.splits list.splits if_splits dest: pool_query_effect)

lemma deleteAuthCode_effect:
  "authorization_codes (deleteAuthCode c w) = authorization_codes w"
  "\<exists>f. trace (deleteAuthCode c w) = trace w @ [(DeleteCode c, f)]
       \<and> (\<not> f \<longrightarrow> c \<in> set (in_flight (deleteAuthCode c w)))"
  "set (in_flight w) \<subseteq> set (in_flight (deleteAuthCode c w))"
  "clock (deleteAuthCode c w) = clock w"
  by (auto simp: deleteAuthCode_def split: list.splits)

lemma logAuthEvent_effect:
  "authorization_codes (logAuthEvent e s cid m w) = authorization_codes w"
  "\<exists>f. trace (logAuthEvent e s cid m w) = trace w @ [(InsertLog e, f)]"
  "in_flight (logAuthEvent e s cid m w) = in_flight w"
  by (cases "pool_query (InsertLog e) w"; auto simp: logAuthEvent_def dest: pool_query_effect)+

lemma has_code_log [simp]: "has_code c (logAuthEvent e s cid m w) = has_code c w"
  by (simp add: has_code_def logAuthEvent_effect)

section \<open>Queries that leave the codes alone\<close>

lemma quiet_refl [simp]: "quiet w w"
  by (simp add: quiet_def)

lemma quiet_trans: "quiet w w1 \<Longrightarrow> quiet w1 w2 \<Longrightarrow> quiet w w2"
  by (auto simp: quiet_def)

lemma quiet_getAuthCode: "getAuthCode c w = (r, w1) \<Longrightarrow> quiet w w1"
  by (auto simp: quiet_def dest: getAuthCode_effect)

lemma quiet_getClient: "getClient c w = (r, w1) \<Longrightarrow> quiet w w1"
  by (auto simp: quiet_def dest: getClient_effect)

lemma quiet_validateClient: "validateClient cid s sc ss w = (r, w1) \<Longrightarrow> quiet w w1"
  by (auto simp: validateClient_def split: if_splits prod.splits option.splits dest: quiet_getClient)

lemma quiet_token_resolve: "token_resolve body w = (r, w1) \<Longrightarrow> quiet w w1"
  by (auto simp: token_resolve_def split: if_splits prod.splits option.splits dest: quiet_getAuthCode)

lemma quiet_token_authenticate: "token_authenticate config body cid w = (r, w1) \<Longrightarrow> quiet w w1"
  by (auto simp: token_authenticate_def Let_def split: if_splits prod.splits option.splits
      dest: quiet_getClient quiet_validateClient intro: quiet_trans)

lemma sent_quiet: "quiet w w1 \<Longrightarrow> \<forall>x \<in> set (sent w w1). \<not> is_delete (fst x)"
  by (auto simp: quiet_def sent_def)

section \<open>The token handler, stage by stage\<close>

lemma token_redeem_fetch:
  assumes "validateCodeVerifier (string_of (body_code_verifier body))"
    and "getAuthCode (string_of (body_code body)) w = (fetched, w1)"
  shows "token_redeem sha config body cid w =
    (case fetched of
       None \<Rightarrow> (sendError ''invalid_grant'' ''Invalid or expired authorization code'', w1)
     | Some stored \<Rightarrow>
        if clientId stored \<noteq> cid then
          (sendError ''invalid_grant'' ''client_id mismatch'', deleteAuthCode (string_of (body_code body)) w1)
        else if redirectUri stored \<noteq> string_of (body_redirect_uri body) then
          (sendError ''invalid_grant'' ''redirect_uri mismatch'', deleteAuthCode (string_of (body_code body)) w1)
        else if \<not> verifyPKCE sha (string_of (body_code_verifier body)) (codeChallenge stored) then
          (sendError ''invalid_grant'' ''PKCE verification failed'',
           logAuthEvent ''token_failure'' False (Some cid) (Some ''PKCE verification failed'')
             (deleteAuthCode (string_of (body_code body)) w1))
        else
          (JsonToken \<lparr>access_token = apiKey config, token_type = ''Bearer'',
             token_scope = (case scope stored of
                              None \<Rightarrow> join_space (case scopes config of None \<Rightarrow> default_scopes | Some l \<Rightarrow> l)
                            | Some s \<Rightarrow> if s = [] then join_space (case scopes config of None \<Rightarrow> default_scopes | Some l \<Rightarrow> l) else s)\<rparr>,
           logAuthEvent ''token_exchange'' True (Some cid) None
             (deleteAuthCode (string_of (body_code body)) w1)))"
  using assms by (simp add: token_redeem_def Let_def split: option.splits)

lemma handleToken_stages:
  assumes "token_resolve body w = (Inr cid, w1)"
    and "token_authenticate config body cid w1 = (Inr (), w2)"
  shows "handleToken sha config body w = token_redeem sha config body cid w2"
  using assms by (simp add: handleToken_def)

lemma quiet_has_code: "quiet w w1 \<Longrightarrow> has_code c w1 = has_code c w"
  by (simp add: quiet_def has_code_def)

lemma token_resolve_error:
  "token_resolve body w = (Inl resp, w1) \<Longrightarrow> \<exists>e d. resp = JsonError 400 e d"
  by (auto simp: token_resolve_def sendError_def split: if_splits prod.splits option.splits)

lemma token_authenticate_error:
  "token_authenticate config body cid w = (Inl resp, w1) \<Longrightarrow> \<exists>e d. resp = JsonError 400 e d"
  by (auto simp: token_authenticate_def sendError_def Let_def split: if_splits prod.splits option.splits)

lemma token_redeem_absent:
  assumes "\<not> has_code (string_of (body_code body)) w"
  shows "fst (token_redeem sha config body cid w) =
     (if validateCodeVerifier (string_of (body_code_verifier body))
      then JsonError 400 ''invalid_grant'' ''Invalid or expired authorization code''
      else JsonError 400 ''invalid_request'' ''Invalid code_verifier format'')"
proof (cases "validateCodeVerifier (string_of (body_code_verifier body))")
  case True
  obtain r w1 where g: "getAuthCode (string_of (body_code body)) w = (r, w1)"
    by (cases "getAuthCode (string_of (body_code body)) w")
  with getAuthCode_absent[OF assms] have "r = None" by simp
  with token_redeem_fetch[OF True g, of sha config cid] True show ?thesis
    by (simp add: sendError_def)
next
  case False
  then show ?thesis by (simp add: token_redeem_def sendError_def)
qed

lemma handleToken_absent:
  assumes "\<not> has_code (string_of (body_code body)) w"
  shows "\<exists>e d. fst (handleToken sha config body w) = JsonError 400 e d"
proof (cases "token_resolve body w")
  case (Pair r w1)
  note res = this
  show ?thesis
  proof (cases r)
    case (Inl resp)
    with res token_resolve_error[of body w resp w1] show ?thesis
      by (auto simp: handleToken_def)
  next
    case (Inr cid)
    note r = this
    obtain a w2 where au: "token_authenticate config body cid w1 = (a, w2)"
      by (cases "token_authenticate config body cid w1")
    show ?thesis
    proof (cases a)
      case (Inl resp)
      with res r au token_authenticate_error[of config body cid w1 resp w2] show ?thesis
        by (auto simp: handleToken_def)
    next
      case (Inr u)
      have "quiet w w2"
        using quiet_token_resolve[OF res] quiet_token_authenticate[OF au] by (rule quiet_trans)
      then have "\<not> has_code (string_of (body_code body)) w2"
        using assms by (simp add: quiet_has_code)
      from token_redeem_absent[OF this, of sha config cid] res r au Inr show ?thesis
        by (auto simp: handleToken_def)
    qed
  qed
qed

lemma handleToken_success:
  assumes "handleToken sha config body w = (JsonToken t, w')"
  shows "\<exists>cid w1 w2 w3 stored.
      token_resolve body w = (Inr cid, w1) \<and> token_authenticate config body cid w1 = (Inr (), w2)
      \<and> validateCodeVerifier (string_of (body_code_verifier body))
      \<and> getAuthCode (string_of (body_code body)) w2 = (Some stored, w3)
      \<and> clientId stored = cid \<and> redirectUri stored = string_of (body_redirect_uri body)
      \<and> verifyPKCE sha (string_of (body_code_verifier body)) (codeChallenge stored)
      \<and> w' = logAuthEvent ''token_exchange'' True (Some cid) None
                (deleteAuthCode (string_of (body_code body)) w3)"
proof -
  obtain r w1 where res: "token_resolve body w = (r, w1)" by (cases "token_resolve body w")
  from assms res token_resolve_error[of body w _ w1] obtain cid where r: "r = Inr cid"
    by (cases r) (auto simp: handleToken_def)
  obtain a w2 where au: "token_authenticate config body cid w1 = (a, w2)"
    by (cases "token_authenticate config body cid w1")
  from assms res r au token_authenticate_error[of config body cid w1 _ w2] have a: "a = Inr ()"
    by (cases a) (auto simp: handleToken_def)
  from assms res r au a have red: "token_redeem sha config body cid w2 = (JsonToken t, w')"
    by (simp add: handleToken_def)
  have fmt: "validateCodeVerifier (string_of (body_code_verifier body))"
  proof (rule ccontr)
    assume "\<not> validateCodeVerifier (string_of (body_code_verifier body))"
    then have "fst (token_redeem sha config body cid w2)
        = sendError ''invalid_request'' ''Invalid code_verifier format''"
      by (simp add: token_redeem_def)
    with red show False by (simp add: sendError_def)
  qed
  obtain fetched w3 where g: "getAuthCode (string_of (body_code body)) w2 = (fetched, w3)"
    by (cases "getAuthCode (string_of (body_code body)) w2")
  from red token_redeem_fetch[OF fmt g, of sha config cid]
  obtain stored where "fetched = Some stored" "clientId stored = cid"
      "redirectUri stored = string_of (body_redirect_uri body)"
      "verifyPKCE sha (string_of (body_code_verifier body)) (codeChallenge stored)"
      "w' = logAuthEvent ''token_exchange'' True (Some cid) None
                (deleteAuthCode (string_of (body_code body)) w3)"
    by (cases fetched) (auto simp: sendError_def split: if_splits)
  with res r au a fmt g show ?thesis by blast
qed

lemma handleToken_in_flight:
  assumes first: "handleToken sha config body w = (JsonToken t, w1)"
    and deleted: "(DeleteCode (string_of (body_code body)), False) \<in> set (sent w w1)"
  shows "string_of (body_code body) \<in> set (in_flight w1)"
proof -
  let ?c = "string_of (body_code body)"
  from handleToken_success[OF first] obtain cid wa wb wc stored where
    res: "token_resolve body w = (Inr cid, wa)" and au: "token_authenticate config body cid wa = (Inr (), wb)"
    and g: "getAuthCode ?c wb = (Some stored, wc)"
    and w1: "w1 = logAuthEvent ''token_exchange'' True (Some cid) None (deleteAuthCode ?c wc)"
    by blast
  have "quiet w wc"
    using quiet_token_resolve[OF res] quiet_token_authenticate[OF au] quiet_getAuthCode[OF g]
    by (blast intro: quiet_trans)
  then obtain xs where xs: "trace wc = trace w @ xs" "\<forall>x \<in> set xs. \<not> is_delete (fst x)"
    by (auto simp: quiet_def)
  obtain f where f: "trace (deleteAuthCode ?c wc) = trace wc @ [(DeleteCode ?c, f)]"
      "\<not> f \<longrightarrow> ?c \<in> set (in_flight (deleteAuthCode ?c wc))"
    using deleteAuthCode_effect(2)[of ?c wc] by blast
  obtain g where "trace w1 = trace (deleteAuthCode ?c wc) @ [(InsertLog ''token_exchange'', g)]"
    using logAuthEvent_effect(2) w1 by blast
  with xs f have "sent w w1 = xs @ [(DeleteCode ?c, f), (InsertLog ''token_exchange'', g)]"
    by (simp add: sent_def)
  with deleted xs(2) have "\<not> f" by auto
  with f(2) w1 show ?thesis by (simp add: logAuthEvent_effect(3))
qed

text \<open>
  No query of a token request changes the table of codes, and none takes a \<^verbatim>\<open>DELETE\<close> out
  of flight.
\<close>

lemma token_resolve_flight: "token_resolve body w = (r, w1) \<Longrightarrow> in_flight w1 = in_flight w"
  by (auto simp: token_resolve_def split: if_splits prod.splits option.splits
      dest: getAuthCode_effect(4))

lemma validateClient_flight: "validateClient cid s sc ss w = (r, w1) \<Longrightarrow> in_flight w1 = in_flight w"
  by (auto simp: validateClient_def split: if_splits prod.splits option.splits
      dest: getClient_effect(4))

lemma token_authenticate_flight:
  "token_authenticate config body cid w = (r, w1) \<Longrightarrow> in_flight w1 = in_flight w"
  by (auto simp: token_authenticate_def Let_def split: if_splits prod.splits option.splits)
     (metis getClient_effect(4) validateClient_flight)+

lemma token_redeem_codes:
  "authorization_codes (snd (token_redeem sha config body cid w)) = authorization_codes w"
  "set (in_flight w) \<subseteq> set (in_flight (snd (token_redeem sha config body cid w)))"
proof -
  have "authorization_codes (snd (token_redeem sha config body cid w)) = authorization_codes w
      \<and> set (in_flight w) \<subseteq> set (in_flight (snd (token_redeem sha config body cid w)))"
  proof (cases "validateCodeVerifier (string_of (body_code_verifier body))")
    case True
    obtain r w1 where g: "getAuthCode (string_of (body_code body)) w = (r, w1)"
      by (cases "getAuthCode (string_of (body_code body)) w")
    have d: "set (in_flight w) \<subseteq> set (in_flight (deleteAuthCode (string_of (body_code body)) w1))"
      using deleteAuthCode_effect(3)[of w1 "string_of (body_code body)"] getAuthCode_effect(4)[OF g]
      by simp
    show ?thesis
      using d getAuthCode_effect(1)[OF g] getAuthCode_effect(4)[OF g]
      by (simp add: token_redeem_fetch[OF True g] logAuthEvent_effect deleteAuthCode_effect(1)
          split: option.splits)
  next
    case False
    then show ?thesis by (simp add: token_redeem_def)
  qed
  then show "authorization_codes (snd (token_redeem sha config body cid w)) = authorization_codes w"
    "set (in_flight w) \<subseteq> set (in_flight (snd (token_redeem sha config body cid w)))"
    by simp_all
qed

lemma handleToken_codes:
  "authorization_codes (snd (handleToken sha config body w)) = authorization_codes w"
  "set (in_flight w) \<subseteq> set (in_flight (snd (handleToken sha config body w)))"
proof -
  obtain r w1 where res: "token_resolve body w = (r, w1)" by (cases "token_resolve body w")
  have q1: "authorization_codes w1 = authorization_codes w" "in_flight w1 = in_flight w"
    using quiet_token_resolve[OF res] token_resolve_flight[OF res] by (simp_all add: quiet_def)
  have "authorization_codes (snd (handleToken sha config body w)) = authorization_codes w
      \<and> set (in_flight w) \<subseteq> set (in_flight (snd (handleToken sha config body w)))"
  proof (cases r)
    case (Inl resp)
    with res q1 show ?thesis by (simp add: handleToken_def)
  next
    case (Inr cid)
    obtain a w2 where au: "token_authenticate config body cid w1 = (a, w2)"
      by (cases "token_authenticate config body cid w1")
    have q2: "authorization_codes w2 = authorization_codes w" "in_flight w2 = in_flight w"
      using quiet_token_authenticate[OF au] token_authenticate_flight[OF au] q1
      by (simp_all add: quiet_def)
    show ?thesis
      using res Inr au q2 token_redeem_codes[where sha = sha and config = config and body = body and cid = cid and w = w2]
      by (cases a) (simp_all add: handleToken_def)
  qed
  then show "authorization_codes (snd (handleToken sha config body w)) = authorization_codes w"
    "set (in_flight w) \<subseteq> set (in_flight (snd (handleToken sha config body w)))"
    by simp_all
qed

lemma token_authenticate_client_id:
  "token_authenticate config (body\<lparr>body_client_id := x\<rparr>) cid w = token_authenticate config body cid w"
  by (simp add: token_authenticate_def cong: prod.case_cong if_cong)

lemma token_redeem_client_id:
  "token_redeem sha config (body\<lparr>body_client_id := x\<rparr>) cid w = token_redeem sha config body cid w"
  by (simp add: token_redeem_def cong: prod.case_cong if_cong option.case_cong)

section \<open>Runs of the concrete deployment\<close>

lemmas b64_eval = buffer_bytes_def b64char_def b64alphabet_def upt_rec Let_def

lemma ex_validate_verifier: "validateCodeVerifier ex_verifier"
  by (simp add: validateCodeVerifier_def ex_verifier_def validChar_def)

lemma ex_verifier_nonempty: "ex_verifier \<noteq> []" "ex_challenge \<noteq> []" "ex_code \<noteq> []" "ex_client_id \<noteq> []"
  by (simp_all add: ex_verifier_def ex_challenge_def ex_code_def ex_client_id_def)

lemma ex_register:
  "handleRegister ex_parseURL 1 2 ex_registration ex_world0 =
     (JsonCreated \<lparr>resp_client_id = ex_client_id,
        resp_client_secret = ''AAAAAAAAAAAAAAAAAAAAAAAAAAAAAAAAAAAAAAAAAAI'',
        resp_client_id_issued_at = 1, resp_client_secret_expires_at = 0, resp_client_name = None,
        resp_redirect_uris = [''http://localhost:9999/cb''],
        resp_token_endpoint_auth_method = ''none'', resp_grant_types = [''authorization_code''],
        resp_response_types = [''code''], resp_scope = None\<rparr>, ex_world_registered)"
  by (simp add: handleRegister_def ex_registration_def ex_world0_def ex_parseURL_def registerClient_def
      pool_query_def generateClientId_def generateClientSecret_def b64_eval
      ex_world_registered_def ex_client_def ex_client_id_def)

lemma ex_authorize_validate: "authorize_validate ex_query = None"
  by (simp add: authorize_validate_def ex_query_def ex_challenge_def validateCodeChallenge_def
      validChar_def ex_client_id_def)

lemma ex_authorize:
  "handleAuthorize ex_parseURL ex_config 3 ex_query True ''/oauth/authorize'' ex_world_registered =
     (Redirect \<lparr>protocol = ''http:'', hostname = ''localhost'', url_rest = ''http://localhost:9999/cb'',
                 searchParams = [(''code'', ex_code), (''state'', ''xyz'')]\<rparr>, ex_world_issued)"
  by (simp add: handleAuthorize_def ex_authorize_validate)
     (simp add: ex_query_def ex_config_def ex_world_registered_def isValidClientId_def getClient_def
      pool_query_def ex_client_def ex_client_id_def authorize_redirect_check_def
      approveAndRedirect_def storeAuthCode_def generateAuthCode_def b64_eval ex_parseURL_def
      CODE_EXPIRATION_MS_def ex_world_issued_def ex_stored_def ex_code_def)

lemma ex_pkce: "base64url (buffer_bytes (ex_sha256 ex_verifier)) = ex_challenge"
  by code_simp

lemma ex_verify: "verifyPKCE ex_sha256 ex_verifier ex_challenge"
  by (simp add: verifyPKCE_def ex_pkce ex_verifier_nonempty)

lemmas token_eval = handleToken_def token_resolve_def token_authenticate_def token_redeem_def
  getClient_def getAuthCode_def deleteAuthCode_def logAuthEvent_def pool_query_def sendError_def
  or_null_def default_scopes_def Let_def

lemmas ex_eval = ex_body_def ex_world_issued_def ex_client_def ex_config_def ex_stored_def
  ex_verifier_nonempty ex_validate_verifier ex_verify

lemma ex_token:
  "handleToken ex_sha256 ex_config ex_body ex_world_issued = (JsonToken ex_token_response, ex_world_answered)"
  by (simp add: token_eval ex_eval ex_world_answered_def ex_token_response_def ex_success_log_def)

lemma ex_deletes_run: "run_deletes ex_world_answered = ex_world_redeemed"
  by (simp add: run_deletes_def ex_world_answered_def ex_world_redeemed_def ex_world_issued_def
      ex_stored_def)

lemma ex_delete_failed_settled: "run_deletes ex_world_delete_failed = ex_world_delete_failed"
  by (simp add: run_deletes_def ex_world_delete_failed_def ex_world_issued_def)

lemma ex_token_in_flight:
  "fst (handleToken ex_sha256 ex_config ex_body ex_world_answered) = JsonToken ex_token_response"
  by (simp add: token_eval ex_eval ex_world_answered_def ex_token_response_def ex_success_log_def)

lemma ex_token_delete_fails:
  "handleToken ex_sha256 ex_config ex_body (ex_world_issued\<lparr>schedule := [(False, 0), (False, 0), (True, 0)]\<rparr>)
     = (JsonToken ex_token_response, ex_world_delete_failed)"
  by (simp add: token_eval ex_eval ex_world_delete_failed_def ex_token_response_def ex_success_log_def)

lemma ex_token_again:
  "fst (handleToken ex_sha256 ex_config ex_body ex_world_delete_failed) = JsonToken ex_token_response"
  by (simp add: token_eval ex_eval ex_world_delete_failed_def ex_token_response_def ex_success_log_def)

lemma ex_token_second:
  "fst (handleToken ex_sha256 ex_config ex_body ex_world_redeemed)
     = JsonError 400 ''invalid_grant'' ''Invalid or expired authorization code''"
  by (simp add: token_eval ex_eval ex_world_redeemed_def ex_token_response_def ex_success_log_def)

lemma ex_token_second_no_client_id:
  "fst (handleToken ex_sha256 ex_config (ex_body\<lparr>body_client_id := JUndefined\<rparr>) ex_world_redeemed)
     = JsonError 400 ''invalid_request'' ''Missing or invalid client_id''"
  by (simp add: token_eval ex_eval ex_world_redeemed_def ex_token_response_def ex_success_log_def)

lemmas authorize_eval = handleAuthorize_def authorize_validate_def validateCodeChallenge_def
  validChar_def isValidClientId_def getClient_def pool_query_def authorize_redirect_check_def
  isValidRedirectUri_def default_prefixes_def approveAndRedirect_def storeAuthCode_def
  generateAuthCode_def CODE_EXPIRATION_MS_def sendError_def b64_eval

section \<open>Bit mutations and the base64url encoding\<close>



lemma length_mutate_bit [simp]: "length (mutate_bit i j s) = length s"
  by (simp add: mutate_bit_def)











section \<open>The authorize and register handlers, step by step\<close>

lemma searchParams_get_set [simp]:
  "searchParams_get name (searchParams_set name v ps) = Some v"
  by (induction ps) auto

lemma searchParams_get_filter:
  "k \<noteq> name \<Longrightarrow> searchParams_get k (filter (\<lambda>p. fst p \<noteq> name) ps) = searchParams_get k ps"
  by (induction ps) auto

lemma searchParams_get_set_other:
  "k \<noteq> name \<Longrightarrow> searchParams_get k (searchParams_set name v ps) = searchParams_get k ps"
  by (induction ps) (auto simp: searchParams_get_filter)

lemma isValidClientId_codes:
  "isValidClientId cid s w = (r, w1) \<Longrightarrow> authorization_codes w1 = authorization_codes w"
  by (auto simp: isValidClientId_def split: if_splits prod.splits dest: getClient_effect)

lemma authorize_redirect_check_codes:
  "authorize_redirect_check config cid ru w = (r, w1) \<Longrightarrow> authorization_codes w1 = authorization_codes w"
  by (auto simp: authorize_redirect_check_def Let_def split: if_splits prod.splits option.splits
      dest: getClient_effect)

lemma storeAuthCode_cases:
  assumes "storeAuthCode random cid ruri challenge method scp w = (r, w1)"
  shows "(r = Inl () \<and> authorization_codes w1 = authorization_codes w)
       \<or> (r = Inr (generateAuthCode random)
          \<and> (\<exists>row. authorization_codes w1 = authorization_codes w @ [row]
                \<and> code row = generateAuthCode random \<and> clientId row = cid
                \<and> redirectUri row = ruri \<and> codeChallenge row = challenge))"
proof -
  obtain f w0 where q: "pool_query (InsertCode (generateAuthCode random)) w = (f, w0)"
    by (cases "pool_query (InsertCode (generateAuthCode random)) w")
  show ?thesis
    using assms q pool_query_effect(1)[OF q]
    by (cases f) (auto simp: storeAuthCode_def Let_def)
qed

lemma approveAndRedirect_cases:
  assumes "approveAndRedirect parseURL random authReq w = (r, w1)"
  shows "(r = Inl () \<and> authorization_codes w1 = authorization_codes w)
       \<or> ((\<exists>row. authorization_codes w1 = authorization_codes w @ [row]
                \<and> code row = generateAuthCode random \<and> clientId row = ar_client_id authReq
                \<and> redirectUri row = ar_redirect_uri authReq
                \<and> codeChallenge row = ar_code_challenge authReq)
          \<and> (case parseURL (ar_redirect_uri authReq) of
                None \<Rightarrow> r = Inl ()
              | Some u \<Rightarrow>
                  r = Inr (Redirect
                    (u\<lparr>searchParams :=
                        (case ar_state authReq of
                           None \<Rightarrow> searchParams_set ''code'' (generateAuthCode random) (searchParams u)
                         | Some s \<Rightarrow>
                             if s \<noteq> [] then
                               searchParams_set ''state'' s
                                 (searchParams_set ''code'' (generateAuthCode random) (searchParams u))
                             else searchParams_set ''code'' (generateAuthCode random) (searchParams u))\<rparr>))))"
proof -
  obtain a w0 where st: "storeAuthCode random (ar_client_id authReq) (ar_redirect_uri authReq)
             (ar_code_challenge authReq) (ar_code_challenge_method authReq)
             (ar_scope authReq) w = (a, w0)"
    by (cases "storeAuthCode random (ar_client_id authReq) (ar_redirect_uri authReq)
             (ar_code_challenge authReq) (ar_code_challenge_method authReq)
             (ar_scope authReq) w")
  from storeAuthCode_cases[OF st] show ?thesis
  proof
    assume "a = Inl () \<and> authorization_codes w0 = authorization_codes w"
    with assms st show ?thesis by (simp add: approveAndRedirect_def)
  next
    assume b: "a = Inr (generateAuthCode random)
          \<and> (\<exists>row. authorization_codes w0 = authorization_codes w @ [row]
                \<and> code row = generateAuthCode random \<and> clientId row = ar_client_id authReq
                \<and> redirectUri row = ar_redirect_uri authReq
                \<and> codeChallenge row = ar_code_challenge authReq)"
    with assms st have "w1 = w0"
      by (auto simp: approveAndRedirect_def Let_def split: option.splits)
    moreover from assms st b have "case parseURL (ar_redirect_uri authReq) of
                None \<Rightarrow> r = Inl ()
              | Some u \<Rightarrow>
                  r = Inr (Redirect
                    (u\<lparr>searchParams :=
                        (case ar_state authReq of
                           None \<Rightarrow> searchParams_set ''code'' (generateAuthCode random) (searchParams u)
                         | Some s \<Rightarrow>
                             if s \<noteq> [] then
                               searchParams_set ''state'' s
                                 (searchParams_set ''code'' (generateAuthCode random) (searchParams u))
                             else searchParams_set ''code'' (generateAuthCode random) (searchParams u))\<rparr>))"
      by (auto simp: approveAndRedirect_def Let_def split: option.splits)
    ultimately show ?thesis using b by blast
  qed
qed

lemma handleAuthorize_steps:
  assumes valid: "authorize_validate q = None"
    and known: "isValidClientId (string_of (q_client_id q)) (cfg_clientId config) w = (k, w1)"
    and check: "authorize_redirect_check config (string_of (q_client_id q))
                  (string_of (q_redirect_uri q)) w1 = (ok, w2)"
    and approve: "approveAndRedirect parseURL random
        \<lparr>ar_client_id = string_of (q_client_id q), ar_redirect_uri = string_of (q_redirect_uri q),
         ar_response_type = string_of (q_response_type q),
         ar_code_challenge = string_of (q_code_challenge q),
         ar_code_challenge_method = string_of (q_code_challenge_method q),
         ar_state = (if typeof_string (q_state q) then Some (string_of (q_state q)) else None),
         ar_scope = (if typeof_string (q_scope q) then Some (string_of (q_scope q)) else None)\<rparr>
        w2 = (a, w3)"
  shows "handleAuthorize parseURL config random q authenticated originalUrl w =
    (if \<not> k then (JsonError 400 ''unauthorized_client'' ''Invalid client_id'', w1)
     else if \<not> ok then (JsonError 400 ''invalid_request'' ''Unauthorized redirect_uri'', w2)
     else if authenticated then
       (case a of Inl e \<Rightarrow> (JsonError 400 ''server_error'' ''Internal server error'', w3)
                | Inr resp \<Rightarrow> (resp, w3))
     else (RenderLogin originalUrl, w2))"
  using assms by (simp add: handleAuthorize_def Let_def sendError_def split: sum.splits)

lemma check_redirect_uris_error:
  "check_redirect_uris parseURL us = Some resp \<Longrightarrow> \<exists>s e d. resp = JsonError s e d"
  by (induction us) (auto simp: Let_def split: option.splits if_splits)

lemma check_grant_types_error:
  "check_grant_types gs = Some resp \<Longrightarrow> \<exists>s e d. resp = JsonError s e d"
  by (induction gs) (auto split: if_splits)

lemma check_response_types_error:
  "check_response_types rs = Some resp \<Longrightarrow> \<exists>s e d. resp = JsonError s e d"
  by (induction rs) (auto split: if_splits)

lemma handleRegister_created:
  assumes h: "handleRegister parseURL randomId randomSecret req w = (JsonCreated r, w2)"
  shows "\<exists>client cn rus am gts rts sc.
      registerClient randomId randomSecret cn rus am gts rts sc w = (Inr client, w2)
      \<and> resp_client_secret r = client_secret client
      \<and> resp_token_endpoint_auth_method r = token_endpoint_auth_method client"
proof -
  let ?rus = "case reg_redirect_uris req of None \<Rightarrow> [] | Some l \<Rightarrow> l"
  let ?am = "case reg_token_endpoint_auth_method req of
               None \<Rightarrow> ''client_secret_basic''
             | Some m \<Rightarrow> if m = [] then ''client_secret_basic'' else m"
  let ?gts = "case reg_grant_types req of None \<Rightarrow> [''authorization_code''] | Some l \<Rightarrow> l"
  let ?rts = "case reg_response_types req of None \<Rightarrow> [''code''] | Some l \<Rightarrow> l"
  obtain rc w' where rc: "registerClient randomId randomSecret (reg_client_name req) ?rus ?am
      ?gts ?rts (reg_scope req) w = (rc, w')"
    by (cases "registerClient randomId randomSecret (reg_client_name req) ?rus ?am
      ?gts ?rts (reg_scope req) w")
  have "\<exists>client. rc = Inr client \<and> w' = w2 \<and> resp_client_secret r = client_secret client
      \<and> resp_token_endpoint_auth_method r = token_endpoint_auth_method client"
    using h rc
    by (cases "check_redirect_uris parseURL ?rus"; cases "check_grant_types ?gts";
        cases "check_response_types ?rts"; cases rc)
       (auto simp: handleRegister_def Let_def split: if_splits
          dest: check_redirect_uris_error check_grant_types_error check_response_types_error)
  with rc show ?thesis by blast
qed

text \<open>
  A lookup that does not throw returns the first row of the client in the registry; and
  the authorize flow stores no code without the client it was issued to.
\<close>

lemma getClient_reads_table:
  "fst (pool_query (SelectClient cid) w) = False \<Longrightarrow>
   fst (getClient cid w) = find (\<lambda>row. client_id row = cid) (oauth_clients w)"
proof -
  assume a: "fst (pool_query (SelectClient cid) w) = False"
  obtain f w0 where q: "pool_query (SelectClient cid) w = (f, w0)"
    by (cases "pool_query (SelectClient cid) w")
  have "find P xs = (case filter P xs of [] \<Rightarrow> None | x # _ \<Rightarrow> Some x)" for P and xs :: "RegisteredClient list"
    by (induction xs) auto
  with a q pool_query_effect(2)[OF q] show ?thesis
    by (auto simp: getClient_def split: list.splits)
qed

lemma authorize_validate_client_id:
  "authorize_validate q = None \<Longrightarrow> string_of (q_client_id q) \<noteq> []"
  by (cases "q_client_id q") (auto simp: authorize_validate_def split: if_splits)

lemma handleAuthorize_client_of_code:
  assumes inv: "\<forall>row \<in> set (authorization_codes w). clientId row \<noteq> []"
  shows "\<forall>row \<in> set (authorization_codes
            (snd (handleAuthorize parseURL config random q authenticated originalUrl w))).
           clientId row \<noteq> []"
proof (cases "authorize_validate q")
  case (Some resp)
  with inv show ?thesis by (simp add: handleAuthorize_def)
next
  case None
  let ?cid = "string_of (q_client_id q)" and ?ru = "string_of (q_redirect_uri q)"
  let ?req = "\<lparr>ar_client_id = ?cid, ar_redirect_uri = ?ru,
         ar_response_type = string_of (q_response_type q),
         ar_code_challenge = string_of (q_code_challenge q),
         ar_code_challenge_method = string_of (q_code_challenge_method q),
         ar_state = (if typeof_string (q_state q) then Some (string_of (q_state q)) else None),
         ar_scope = (if typeof_string (q_scope q) then Some (string_of (q_scope q)) else None)\<rparr>"
  obtain k w1 where known: "isValidClientId ?cid (cfg_clientId config) w = (k, w1)"
    by (cases "isValidClientId ?cid (cfg_clientId config) w")
  obtain ok w2 where check: "authorize_redirect_check config ?cid ?ru w1 = (ok, w2)"
    by (cases "authorize_redirect_check config ?cid ?ru w1")
  obtain a w3 where approve: "approveAndRedirect parseURL random ?req w2 = (a, w3)"
    by (cases "approveAndRedirect parseURL random ?req w2")
  note steps = handleAuthorize_steps[OF None known check approve, of authenticated originalUrl]
  have c1: "authorization_codes w1 = authorization_codes w"
    using isValidClientId_codes[OF known] .
  have c2: "authorization_codes w2 = authorization_codes w"
    using authorize_redirect_check_codes[OF check] c1 by simp
  have c3: "\<forall>row \<in> set (authorization_codes w3). clientId row \<noteq> []"
    using approveAndRedirect_cases[OF approve] c2 inv authorize_validate_client_id[OF None]
    by auto
  have "snd (handleAuthorize parseURL config random q authenticated originalUrl w) \<in> {w1, w2, w3}"
    using steps by (cases a) auto
  with c1 c2 c3 inv show ?thesis by auto
qed

section \<open>Deletes in flight\<close>

text \<open>
  Only a token request puts a \<^verbatim>\<open>DELETE\<close> in flight, and only the database takes it out.
  An authorize request adds at most the row of the code it issues; a registration leaves
  the codes alone.
\<close>

lemma run_deletes_effect:
  "set (authorization_codes (run_deletes w)) \<subseteq> set (authorization_codes w)"
  "in_flight (run_deletes w) = []"
  "c \<in> set (in_flight w) \<Longrightarrow> \<not> has_code c (run_deletes w)"
  "\<not> has_code c w \<Longrightarrow> \<not> has_code c (run_deletes w)"
  by (auto simp: run_deletes_def has_code_def list_ex_iff)

lemma isValidClientId_flight:
  "isValidClientId cid s w = (r, w1) \<Longrightarrow> in_flight w1 = in_flight w"
  by (auto simp: isValidClientId_def split: if_splits prod.splits dest: getClient_effect(4))

lemma authorize_redirect_check_flight:
  "authorize_redirect_check config cid ru w = (r, w1) \<Longrightarrow> in_flight w1 = in_flight w"
  by (auto simp: authorize_redirect_check_def Let_def split: if_splits prod.splits option.splits
      dest: getClient_effect(4))

lemma storeAuthCode_flight:
  assumes "storeAuthCode random cid ruri challenge method scp w = (r, w1)"
  shows "in_flight w1 = in_flight w"
proof -
  obtain f w0 where q: "pool_query (InsertCode (generateAuthCode random)) w = (f, w0)"
    by (cases "pool_query (InsertCode (generateAuthCode random)) w")
  show ?thesis
    using assms q pool_query_effect(5)[OF q]
    by (cases f) (auto simp: storeAuthCode_def Let_def)
qed

lemma approveAndRedirect_flight:
  assumes "approveAndRedirect parseURL random authReq w = (r, w1)"
  shows "in_flight w1 = in_flight w"
  using assms
  by (auto simp: approveAndRedirect_def Let_def split: prod.splits sum.splits option.splits
      dest: storeAuthCode_flight)

lemma handleAuthorize_other_code:
  assumes other: "generateAuthCode random \<noteq> c"
  shows "has_code c (snd (handleAuthorize parseURL config random q authenticated originalUrl w))
           = has_code c w"
    and "in_flight (snd (handleAuthorize parseURL config random q authenticated originalUrl w))
           = in_flight w"
proof -
  let ?w' = "snd (handleAuthorize parseURL config random q authenticated originalUrl w)"
  have "has_code c ?w' = has_code c w \<and> in_flight ?w' = in_flight w"
  proof (cases "authorize_validate q")
    case (Some resp)
    then show ?thesis by (simp add: handleAuthorize_def)
  next
    case None
    let ?cid = "string_of (q_client_id q)" and ?ru = "string_of (q_redirect_uri q)"
    let ?req = "\<lparr>ar_client_id = ?cid, ar_redirect_uri = ?ru,
           ar_response_type = string_of (q_response_type q),
           ar_code_challenge = string_of (q_code_challenge q),
           ar_code_challenge_method = string_of (q_code_challenge_method q),
           ar_state = (if typeof_string (q_state q) then Some (string_of (q_state q)) else None),
           ar_scope = (if typeof_string (q_scope q) then Some (string_of (q_scope q)) else None)\<rparr>"
    obtain k w1 where known: "isValidClientId ?cid (cfg_clientId config) w = (k, w1)"
      by (cases "isValidClientId ?cid (cfg_clientId config) w")
    obtain ok w2 where check: "authorize_redirect_check config ?cid ?ru w1 = (ok, w2)"
      by (cases "authorize_redirect_check config ?cid ?ru w1")
    obtain a w3 where approve: "approveAndRedirect parseURL random ?req w2 = (a, w3)"
      by (cases "approveAndRedirect parseURL random ?req w2")
    note steps = handleAuthorize_steps[OF None known check approve, of authenticated originalUrl]
    have c1: "has_code c w1 = has_code c w \<and> in_flight w1 = in_flight w"
      using isValidClientId_codes[OF known] isValidClientId_flight[OF known]
      by (simp add: has_code_def)
    have c2: "has_code c w2 = has_code c w \<and> in_flight w2 = in_flight w"
      using authorize_redirect_check_codes[OF check] authorize_redirect_check_flight[OF check] c1
      by (simp add: has_code_def)
    have c3: "has_code c w3 = has_code c w \<and> in_flight w3 = in_flight w"
      using approveAndRedirect_cases[OF approve] approveAndRedirect_flight[OF approve] c2 other
      by (auto simp: has_code_def)
    have "?w' \<in> {w1, w2, w3}"
      using steps by (cases a) auto
    with c1 c2 c3 show ?thesis by auto
  qed
  then show "has_code c ?w' = has_code c w" and "in_flight ?w' = in_flight w" by simp_all
qed

lemma registerClient_codes:
  assumes "registerClient randomId randomSecret cn rus am gts rts sc w = (r, w1)"
  shows "authorization_codes w1 = authorization_codes w \<and> in_flight w1 = in_flight w"
proof -
  obtain f w0 where q: "pool_query (InsertClient (generateClientId randomId)) w = (f, w0)"
    by (cases "pool_query (InsertClient (generateClientId randomId)) w")
  show ?thesis
    using assms q pool_query_effect(1)[OF q] pool_query_effect(5)[OF q]
    by (cases f) (auto simp: registerClient_def Let_def)
qed

lemma handleRegister_codes:
  "authorization_codes (snd (handleRegister parseURL randomId randomSecret req w))
     = authorization_codes w
   \<and> in_flight (snd (handleRegister parseURL randomId randomSecret req w)) = in_flight w"
proof -
  let ?rus = "case reg_redirect_uris req of None \<Rightarrow> [] | Some l \<Rightarrow> l"
  let ?am = "case reg_token_endpoint_auth_method req of
               None \<Rightarrow> ''client_secret_basic''
             | Some m \<Rightarrow> if m = [] then ''client_secret_basic'' else m"
  let ?gts = "case reg_grant_types req of None \<Rightarrow> [''authorization_code''] | Some l \<Rightarrow> l"
  let ?rts = "case reg_response_types req of None \<Rightarrow> [''code''] | Some l \<Rightarrow> l"
  obtain rc w' where rc: "registerClient randomId randomSecret (reg_client_name req) ?rus ?am
      ?gts ?rts (reg_scope req) w = (rc, w')"
    by (cases "registerClient randomId randomSecret (reg_client_name req) ?rus ?am
      ?gts ?rts (reg_scope req) w")
  have "snd (handleRegister parseURL randomId randomSecret req w) \<in> {w, w'}"
    using rc
    by (cases "check_redirect_uris parseURL ?rus"; cases "check_grant_types ?gts";
        cases "check_response_types ?rts"; cases rc)
       (auto simp: handleRegister_def Let_def split: if_splits)
  with registerClient_codes[OF rc] show ?thesis by auto
qed

text \<open>
  A code whose every row is covered by a \<^verbatim>\<open>DELETE\<close> in flight stays covered, and it is
  gone for good once the database has run the \<^verbatim>\<open>DELETE\<close>, as long as no authorize
  request issues the same code again.
\<close>

lemma step_covered:
  assumes "has_code c w \<longrightarrow> c \<in> set (in_flight w)" and "may_issue e \<noteq> Some c"
  shows "has_code c (step sha parseURL config e w)
           \<longrightarrow> c \<in> set (in_flight (step sha parseURL config e w))"
proof (cases e)
  case (TokenRequest body)
  then show ?thesis
    using assms(1) handleToken_codes[where sha = sha and config = config and body = body and w = w] by (auto simp: has_code_def)
next
  case (AuthorizeRequest random q authenticated originalUrl)
  then show ?thesis
    using assms handleAuthorize_other_code[of random c parseURL config q authenticated originalUrl w]
    by simp
next
  case (RegisterRequest randomId randomSecret req)
  then show ?thesis
    using assms(1) handleRegister_codes[of parseURL randomId randomSecret req w]
    by (simp add: has_code_def)
next
  case DeletesRun
  then show ?thesis using assms(1) run_deletes_effect(3,4)[of c w] by auto
next
  case (Elapse n)
  then show ?thesis using assms(1) by (simp add: has_code_def)
next
  case (Plan s)
  then show ?thesis using assms(1) by (simp add: has_code_def)
qed

lemma step_absent:
  assumes "\<not> has_code c w" and "may_issue e \<noteq> Some c"
  shows "\<not> has_code c (step sha parseURL config e w)"
proof (cases e)
  case (TokenRequest body)
  then show ?thesis
    using assms(1) handleToken_codes(1)[where sha = sha and config = config and body = body and w = w] by (simp add: has_code_def)
next
  case (AuthorizeRequest random q authenticated originalUrl)
  then show ?thesis
    using assms handleAuthorize_other_code(1)[of random c parseURL config q authenticated originalUrl w]
    by simp
next
  case (RegisterRequest randomId randomSecret req)
  then show ?thesis
    using assms(1) handleRegister_codes[of parseURL randomId randomSecret req w]
    by (simp add: has_code_def)
next
  case DeletesRun
  then show ?thesis using assms(1) run_deletes_effect(4)[of c w] by simp
next
  case (Elapse n)
  then show ?thesis using assms(1) by (simp add: has_code_def)
next
  case (Plan s)
  then show ?thesis using assms(1) by (simp add: has_code_def)
qed

lemma run_absent:
  "\<not> has_code c w \<Longrightarrow> \<forall>e \<in> set evs. may_issue e \<noteq> Some c
     \<Longrightarrow> \<not> has_code c (run sha parseURL config evs w)"
  by (induction evs arbitrary: w) (simp_all add: step_absent)

lemma run_deleted:
  "has_code c w \<longrightarrow> c \<in> set (in_flight w) \<Longrightarrow> DeletesRun \<in> set evs
     \<Longrightarrow> \<forall>e \<in> set evs. may_issue e \<noteq> Some c
     \<Longrightarrow> \<not> has_code c (run sha parseURL config evs w)"
proof (induction evs arbitrary: w)
  case Nil
  then show ?case by simp
next
  case (Cons e es)
  show ?case
  proof (cases "e = DeletesRun")
    case True
    have "\<not> has_code c (run_deletes w)"
      using Cons.prems(1) run_deletes_effect(3,4)[of c w] by auto
    with True Cons.prems(3) show ?thesis by (simp add: run_absent)
  next
    case False
    with Cons.prems have "DeletesRun \<in> set es" and "\<forall>e \<in> set es. may_issue e \<noteq> Some c"
      and "may_issue e \<noteq> Some c" by auto
    with Cons.IH[OF step_covered[OF Cons.prems(1) \<open>may_issue e \<noteq> Some c\<close>]]
    show ?thesis by simp
  qed
qed

text \<open>
  After the first redemption of the concrete deployment: another code is issued, the
  database runs the \<^verbatim>\<open>DELETE\<close> in flight, a second passes.
\<close>

lemma ex_other_code: "generateAuthCode 4 \<noteq> ex_code"
  by (simp add: generateAuthCode_def ex_code_def b64_eval)

lemma ex_authorize_second:
  "handleAuthorize ex_parseURL ex_config 4 ex_query True ''/oauth/authorize'' ex_world_answered =
     (Redirect \<lparr>protocol = ''http:'', hostname = ''localhost'', url_rest = ''http://localhost:9999/cb'',
                 searchParams = [(''code'', generateAuthCode 4), (''state'', ''xyz'')]\<rparr>,
      ex_world_answered
      \<lparr>authorization_codes := [ex_stored, ex_stored\<lparr>code := generateAuthCode 4\<rparr>],
       trace := trace ex_world_answered @
         [(SelectClient ex_client_id, False), (SelectClient ex_client_id, False),
          (InsertCode (generateAuthCode 4), False)]\<rparr>)"
  by (simp add: handleAuthorize_def ex_authorize_validate)
     (simp add: ex_query_def ex_config_def ex_world_answered_def ex_world_issued_def isValidClientId_def getClient_def
      pool_query_def ex_client_def ex_client_id_def authorize_redirect_check_def
      approveAndRedirect_def storeAuthCode_def ex_parseURL_def Let_def
      CODE_EXPIRATION_MS_def ex_stored_def)

lemma ex_run:
  "run ex_sha256 ex_parseURL ex_config
     [AuthorizeRequest 4 ex_query True ''/oauth/authorize'', DeletesRun, Elapse 1000]
     ex_world_answered
   = ex_world_answered
      \<lparr>authorization_codes := [ex_stored\<lparr>code := generateAuthCode 4\<rparr>],
       trace := trace ex_world_answered @
         [(SelectClient ex_client_id, False), (SelectClient ex_client_id, False),
          (InsertCode (generateAuthCode 4), False)],
       in_flight := [], clock := 2000\<rparr>"
  using ex_other_code
  by (simp add: ex_authorize_second run_deletes_def)
     (simp add: ex_world_answered_def ex_world_issued_def ex_stored_def)

lemma ex_token_refused:
  "token_resolve ex_body w = (Inr ex_client_id, w)"
  by (simp add: token_resolve_def ex_body_def ex_verifier_nonempty ex_code_def ex_client_id_def)

section \<open>Expiry of authorization codes\<close>

text \<open>
  Claim C4. \<^verbatim>\<open>storeAuthCode\<close> stores a code with \<open>expiresAt\<close> equal to the time of the call
  plus ten minutes. \<^verbatim>\<open>getAuthCode\<close> returns absent whenever every stored row of the code
  has \<open>expiresAt\<close> at or before the time at which the query runs, and the rows stay in the
  table: nothing deletes them.
\<close>

theorem expired_code_is_absent:
  "(storeAuthCode random cid ruri challenge method scp w = (Inr c, w1) \<longrightarrow>
      c = generateAuthCode random \<and>
      authorization_codes w1 = authorization_codes w @
        [\<lparr>code = c, clientId = cid, redirectUri = ruri, codeChallenge = challenge,
          codeChallengeMethod = method, scope = scp, createdAt = clock w1,
          expiresAt = clock w + 10 * 60 * 1000\<rparr>])
   \<and> ((\<forall>row \<in> set (authorization_codes w'). code row = c' \<longrightarrow>
           expiresAt row \<le> clock (snd (getAuthCode c' w'))) \<longrightarrow>
        fst (getAuthCode c' w') = None
        \<and> authorization_codes (snd (getAuthCode c' w')) = authorization_codes w')"
proof -
  have store: "storeAuthCode random cid ruri challenge method scp w = (Inr c, w1) \<longrightarrow>
      c = generateAuthCode random \<and>
      authorization_codes w1 = authorization_codes w @
        [\<lparr>code = c, clientId = cid, redirectUri = ruri, codeChallenge = challenge,
          codeChallengeMethod = method, scope = scp, createdAt = clock w1,
          expiresAt = clock w + 10 * 60 * 1000\<rparr>]"
    by (auto simp: storeAuthCode_def pool_query_def CODE_EXPIRATION_MS_def Let_def
        split: list.splits prod.splits if_splits)
  have fetch: "fst (getAuthCode c' w') = None
        \<and> authorization_codes (snd (getAuthCode c' w')) = authorization_codes w'"
    if a: "\<forall>row \<in> set (authorization_codes w'). code row = c' \<longrightarrow>
           expiresAt row \<le> clock (snd (getAuthCode c' w'))"
  proof -
    let ?w1 = "snd (pool_query (SelectCode c') w')"
    have codes: "authorization_codes ?w1 = authorization_codes w'"
      by (simp add: pool_query_def split: list.splits prod.splits)
    have "filter (\<lambda>row. code row = c' \<and> expiresAt row > clock ?w1) (authorization_codes ?w1) = []"
      using a unfolding getAuthCode_clock codes by (auto simp: filter_empty_conv)
    then have "fst (getAuthCode c' w') = None"
      by (cases "pool_query (SelectCode c') w'") (simp add: getAuthCode_def)
    then show ?thesis by (simp add: getAuthCode_codes)
  qed
  from store fetch show ?thesis by blast
qed

text \<open>
  A code stored at time 1000 expires at 601000: read 600000 ms later it is absent though
  its row is still stored; read one millisecond earlier it is returned.
\<close>

theorem expired_code_is_absent_witness:
  "storeAuthCode 3 ex_client_id ''http://localhost:9999/cb'' ex_challenge ''S256'' None ex_world0
     = (Inr ex_code, ex_world0\<lparr>authorization_codes := [ex_stored],
                                 trace := [(InsertCode ex_code, False)]\<rparr>)
   \<and> expiresAt ex_stored = clock ex_world0 + 10 * 60 * 1000
   \<and> fst (getAuthCode ex_code (ex_world_issued\<lparr>schedule := [(False, 600000)]\<rparr>)) = None
   \<and> authorization_codes (snd (getAuthCode ex_code (ex_world_issued\<lparr>schedule := [(False, 600000)]\<rparr>)))
       = [ex_stored]
   \<and> fst (getAuthCode ex_code (ex_world_issued\<lparr>schedule := [(False, 599999)]\<rparr>)) = Some ex_stored"
  using expired_code_is_absent [where w' = "ex_world_issued\<lparr>schedule := [(False, 600000)]\<rparr>"
      and c' = ex_code and w = ex_world0 and random = 3]
  by (simp add: storeAuthCode_def generateAuthCode_def getAuthCode_def pool_query_def
      CODE_EXPIRATION_MS_def ex_world0_def ex_world_issued_def ex_stored_def ex_code_def b64_eval)

section \<open>Token exchange\<close>

text \<open>
  Claim C2 as stated fails. The handler does not wait for the \<^verbatim>\<open>DELETE\<close> it sends on a binding
  failure: when \<^verbatim>\<open>invalid_grant\<close> is returned for the wrong redirect URI, the row of the code
  is still stored. And the \<^verbatim>\<open>DELETE\<close> may fail: \<^verbatim>\<open>deleteAuthCode\<close> catches the error, so the
  code is never deleted, and after the refused request it is redeemed for a token.
\<close>

theorem binding_failure_counterexample:
  "fst (handleToken ex_sha256 ex_config
          (ex_body\<lparr>body_redirect_uri := JString ''http://localhost:9999/other''\<rparr>) ex_world_issued)
     = JsonError 400 ''invalid_grant'' ''redirect_uri mismatch''
   \<and> has_code ex_code
        (snd (handleToken ex_sha256 ex_config
               (ex_body\<lparr>body_redirect_uri := JString ''http://localhost:9999/other''\<rparr>)
               ex_world_issued))
   \<and> fst (handleToken ex_sha256 ex_config
            (ex_body\<lparr>body_redirect_uri := JString ''http://localhost:9999/other''\<rparr>)
            (ex_world_issued\<lparr>schedule := [(False, 0), (False, 0), (True, 0)]\<rparr>))
       = JsonError 400 ''invalid_grant'' ''redirect_uri mismatch''
   \<and> has_code ex_code
        (run_deletes
          (snd (handleToken ex_sha256 ex_config
                 (ex_body\<lparr>body_redirect_uri := JString ''http://localhost:9999/other''\<rparr>)
                 (ex_world_issued\<lparr>schedule := [(False, 0), (False, 0), (True, 0)]\<rparr>))))
   \<and> fst (handleToken ex_sha256 ex_config ex_body
            (run_deletes
              (snd (handleToken ex_sha256 ex_config
                     (ex_body\<lparr>body_redirect_uri := JString ''http://localhost:9999/other''\<rparr>)
                     (ex_world_issued\<lparr>schedule := [(False, 0), (False, 0), (True, 0)]\<rparr>)))))
       = JsonToken ex_token_response"
  by (simp add: token_eval ex_eval run_deletes_def has_code_def ex_token_response_def)

text \<open>
  Claim C2, amended. A token request that has passed the parameter checks, the client
  authentication and the verifier format check fetches the code. If the fetch returns a
  record whose client, redirect URI or PKCE challenge does not match, the first query
  after the fetch is the \<^verbatim>\<open>DELETE\<close> of the code, sent before \<^verbatim>\<open>invalid_grant\<close> is returned with
  the description of the first check that failed; and unless that \<^verbatim>\<open>DELETE\<close> fails, no row
  of the code is left once the database has run it. If the fetch finds nothing, the
  answer is \<^verbatim>\<open>invalid_grant\<close>, the fetch is the last query of the request, and the request
  has sent no \<^verbatim>\<open>DELETE\<close>.
\<close>

theorem binding_failure_sends_delete:
  assumes resolve: "token_resolve body w = (Inr cid, w1)"
    and auth: "token_authenticate config body cid w1 = (Inr (), w2)"
    and fmt: "validateCodeVerifier (string_of (body_code_verifier body))"
    and fetch: "getAuthCode (string_of (body_code body)) w2 = (fetched, w3)"
    and run: "handleToken sha config body w = (resp, w')"
  shows "(fetched = None \<longrightarrow>
            resp = JsonError 400 ''invalid_grant'' ''Invalid or expired authorization code''
            \<and> w' = w3 \<and> (\<forall>x \<in> set (sent w w'). \<not> is_delete (fst x)))
       \<and> (\<forall>stored. fetched = Some stored \<and>
             (clientId stored \<noteq> cid
              \<or> redirectUri stored \<noteq> string_of (body_redirect_uri body)
              \<or> \<not> verifyPKCE sha (string_of (body_code_verifier body)) (codeChallenge stored)) \<longrightarrow>
            resp = JsonError 400 ''invalid_grant''
                     (if clientId stored \<noteq> cid then ''client_id mismatch''
                      else if redirectUri stored \<noteq> string_of (body_redirect_uri body)
                      then ''redirect_uri mismatch'' else ''PKCE verification failed'')
            \<and> (\<exists>f later. sent w3 w' = (DeleteCode (string_of (body_code body)), f) # later
                   \<and> (\<not> f \<longrightarrow> \<not> has_code (string_of (body_code body)) (run_deletes w'))))"
proof -
  let ?c = "string_of (body_code body)"
  have eq: "(resp, w') = token_redeem sha config body cid w2"
    using handleToken_stages[OF resolve auth] run by simp
  note red = token_redeem_fetch[OF fmt fetch, of sha config cid]
  have q: "quiet w w3"
    using quiet_token_resolve[OF resolve] quiet_token_authenticate[OF auth] quiet_getAuthCode[OF fetch]
    by (blast intro: quiet_trans)
  have absent: "fetched = None \<longrightarrow>
            resp = JsonError 400 ''invalid_grant'' ''Invalid or expired authorization code''
            \<and> w' = w3 \<and> (\<forall>x \<in> set (sent w w'). \<not> is_delete (fst x))"
    using eq red sent_quiet[OF q] by (auto simp: sendError_def)
  obtain f where f: "trace (deleteAuthCode ?c w3) = trace w3 @ [(DeleteCode ?c, f)]"
      "\<not> f \<longrightarrow> ?c \<in> set (in_flight (deleteAuthCode ?c w3))"
    using deleteAuthCode_effect(2)[of ?c w3] by blast
  have bound: "\<forall>stored. fetched = Some stored \<and>
             (clientId stored \<noteq> cid
              \<or> redirectUri stored \<noteq> string_of (body_redirect_uri body)
              \<or> \<not> verifyPKCE sha (string_of (body_code_verifier body)) (codeChallenge stored)) \<longrightarrow>
            resp = JsonError 400 ''invalid_grant''
                     (if clientId stored \<noteq> cid then ''client_id mismatch''
                      else if redirectUri stored \<noteq> string_of (body_redirect_uri body)
                      then ''redirect_uri mismatch'' else ''PKCE verification failed'')
            \<and> (\<exists>f later. sent w3 w' = (DeleteCode ?c, f) # later
                   \<and> (\<not> f \<longrightarrow> \<not> has_code ?c (run_deletes w')))"
  proof (intro allI impI)
    fix stored
    assume a: "fetched = Some stored \<and>
             (clientId stored \<noteq> cid
              \<or> redirectUri stored \<noteq> string_of (body_redirect_uri body)
              \<or> \<not> verifyPKCE sha (string_of (body_code_verifier body)) (codeChallenge stored))"
    let ?d = "deleteAuthCode ?c w3"
    let ?l = "logAuthEvent ''token_failure'' False (Some cid) (Some ''PKCE verification failed'') ?d"
    from a eq red have w'_cases: "w' = ?d \<or> w' = ?l"
      by (auto split: if_splits)
    from a eq red have r: "resp = JsonError 400 ''invalid_grant''
                     (if clientId stored \<noteq> cid then ''client_id mismatch''
                      else if redirectUri stored \<noteq> string_of (body_redirect_uri body)
                      then ''redirect_uri mismatch'' else ''PKCE verification failed'')"
      by (auto simp: sendError_def split: if_splits)
    obtain g where g: "trace ?l = trace ?d @ [(InsertLog ''token_failure'', g)]"
      using logAuthEvent_effect(2) by blast
    from w'_cases have "\<exists>later. sent w3 w' = (DeleteCode ?c, f) # later
        \<and> (\<not> f \<longrightarrow> \<not> has_code ?c (run_deletes w'))"
    proof
      assume "w' = ?d"
      then show ?thesis using f run_deletes_effect(3)[of ?c ?d] by (auto simp: sent_def)
    next
      assume "w' = ?l"
      then show ?thesis
        using f g run_deletes_effect(3)[of ?c ?l] by (auto simp: sent_def logAuthEvent_effect(3))
    qed
    with r show "resp = JsonError 400 ''invalid_grant''
                     (if clientId stored \<noteq> cid then ''client_id mismatch''
                      else if redirectUri stored \<noteq> string_of (body_redirect_uri body)
                      then ''redirect_uri mismatch'' else ''PKCE verification failed'')
            \<and> (\<exists>f later. sent w3 w' = (DeleteCode ?c, f) # later
                   \<and> (\<not> f \<longrightarrow> \<not> has_code ?c (run_deletes w')))" by blast
  qed
  from absent bound show ?thesis by blast
qed

text \<open>
  The issued code redeemed with another redirect URI: \<^verbatim>\<open>invalid_grant\<close>, the \<^verbatim>\<open>DELETE\<close> is the
  last query sent, and the code is gone when the database has run it. A code that is not
  stored: \<^verbatim>\<open>invalid_grant\<close> after the fetch, with no \<^verbatim>\<open>DELETE\<close>.
\<close>

theorem binding_failure_sends_delete_witness:
  "fst (handleToken ex_sha256 ex_config
          (ex_body\<lparr>body_redirect_uri := JString ''http://localhost:9999/other''\<rparr>) ex_world_issued)
     = JsonError 400 ''invalid_grant'' ''redirect_uri mismatch''
   \<and> sent ex_world_issued
        (snd (handleToken ex_sha256 ex_config
               (ex_body\<lparr>body_redirect_uri := JString ''http://localhost:9999/other''\<rparr>)
               ex_world_issued))
       = [(SelectClient ex_client_id, False), (SelectCode ex_code, False),
          (DeleteCode ex_code, False)]
   \<and> \<not> has_code ex_code
        (run_deletes
          (snd (handleToken ex_sha256 ex_config
                 (ex_body\<lparr>body_redirect_uri := JString ''http://localhost:9999/other''\<rparr>)
                 ex_world_issued)))
   \<and> fst (handleToken ex_sha256 ex_config ex_body ex_world_redeemed)
       = JsonError 400 ''invalid_grant'' ''Invalid or expired authorization code''
   \<and> sent ex_world_redeemed (snd (handleToken ex_sha256 ex_config ex_body ex_world_redeemed))
       = [(SelectClient ex_client_id, False), (SelectCode ex_code, False)]"
  using binding_failure_sends_delete [where sha = ex_sha256 and config = ex_config
      and body = "ex_body\<lparr>body_redirect_uri := JString ''http://localhost:9999/other''\<rparr>"
      and w = ex_world_issued and cid = ex_client_id and ?w1.0 = ex_world_issued
      and ?w2.0 = "ex_world_issued\<lparr>trace := trace ex_world_issued @ [(SelectClient ex_client_id, False)]\<rparr>"
      and fetched = "Some ex_stored"
      and ?w3.0 = "ex_world_issued\<lparr>trace := trace ex_world_issued @
                     [(SelectClient ex_client_id, False), (SelectCode ex_code, False)]\<rparr>"
      and resp = "JsonError 400 ''invalid_grant'' ''redirect_uri mismatch''"
      and w' = "ex_world_issued\<lparr>trace := trace ex_world_issued @
                     [(SelectClient ex_client_id, False), (SelectCode ex_code, False),
                      (DeleteCode ex_code, False)], in_flight := [ex_code]\<rparr>"]
  by (simp add: token_eval ex_eval ex_world_redeemed_def ex_success_log_def sent_def has_code_def
      run_deletes_def)

text \<open>
  Claim C10. When the next query throws, \<^verbatim>\<open>getClient\<close> and \<^verbatim>\<open>getAuthCode\<close> return absent
  instead of propagating the error. So a token request that has passed every check
  before the code fetch, and whose fetch throws, is answered \<^verbatim>\<open>invalid_grant\<close> ("Invalid or
  expired authorization code"), the answer for a missing code, and not \<^verbatim>\<open>server_error\<close>.
\<close>

theorem storage_failure_reads_as_absent:
  "(schedule w = (True, d) # rest \<longrightarrow>
      fst (getClient cid w) = None \<and> fst (getAuthCode c w) = None)
   \<and> (token_resolve body w = (Inr cid', w1) \<and> token_authenticate config body cid' w1 = (Inr (), w2)
        \<and> validateCodeVerifier (string_of (body_code_verifier body))
        \<and> schedule w2 = (True, d') # rest' \<longrightarrow>
      fst (handleToken sha config body w)
        = JsonError 400 ''invalid_grant'' ''Invalid or expired authorization code'')"
proof -
  have "fst (handleToken sha config body w)
        = JsonError 400 ''invalid_grant'' ''Invalid or expired authorization code''"
    if a: "token_resolve body w = (Inr cid', w1)" "token_authenticate config body cid' w1 = (Inr (), w2)"
       "validateCodeVerifier (string_of (body_code_verifier body))" "schedule w2 = (True, d') # rest'"
  proof -
    obtain r w3 where g: "getAuthCode (string_of (body_code body)) w2 = (r, w3)"
      by (cases "getAuthCode (string_of (body_code body)) w2")
    with getAuthCode_throws[OF a(4), of "string_of (body_code body)"] have "r = None" by simp
    with token_redeem_fetch[OF a(3) g, of sha config cid'] handleToken_stages[OF a(1) a(2), of sha]
    show ?thesis by (simp add: sendError_def)
  qed
  then show ?thesis
    by (auto simp: getClient_throws getAuthCode_throws)
qed

text \<open>
  The issued, unexpired code, redeemed correctly while the fetch throws: \<^verbatim>\<open>invalid_grant\<close>,
  and the code is still stored.
\<close>

theorem storage_failure_reads_as_absent_witness:
  "fst (getClient ex_client_id (ex_world_issued\<lparr>schedule := [(True, 0)]\<rparr>)) = None
   \<and> fst (getAuthCode ex_code (ex_world_issued\<lparr>schedule := [(True, 0)]\<rparr>)) = None
   \<and> fst (getAuthCode ex_code ex_world_issued) = Some ex_stored
   \<and> fst (handleToken ex_sha256 ex_config ex_body
            (ex_world_issued\<lparr>schedule := [(False, 0), (True, 0)]\<rparr>))
       = JsonError 400 ''invalid_grant'' ''Invalid or expired authorization code''
   \<and> has_code ex_code
        (snd (handleToken ex_sha256 ex_config ex_body
               (ex_world_issued\<lparr>schedule := [(False, 0), (True, 0)]\<rparr>)))"
  using storage_failure_reads_as_absent [where w = "ex_world_issued\<lparr>schedule := [(True, 0)]\<rparr>"
      and d = 0 and rest = "[]" and cid = ex_client_id and c = ex_code]
    storage_failure_reads_as_absent [where w = "ex_world_issued\<lparr>schedule := [(False, 0), (True, 0)]\<rparr>"
      and body = ex_body and config = ex_config and sha = ex_sha256 and cid' = ex_client_id
      and ?w1.0 = "ex_world_issued\<lparr>schedule := [(False, 0), (True, 0)]\<rparr>"
      and ?w2.0 = "ex_world_issued\<lparr>schedule := [(True, 0)],
                     trace := trace ex_world_issued @ [(SelectClient ex_client_id, False)]\<rparr>"
      and d' = 0 and rest' = "[]"]
  by (simp add: token_eval ex_eval has_code_def)

text \<open>
  Claim C7. A token request whose other parameters pass the checks and whose
  \<^verbatim>\<open>client_id\<close> is missing, empty or not a string looks the code up first. If the lookup
  finds nothing, the request fails with \<^verbatim>\<open>invalid_request\<close> ("Missing or invalid
  client_id"). If it finds a record (with a \<^verbatim>\<open>clientId\<close> that is not empty, as every record
  written by the authorize flow has), the stored \<^verbatim>\<open>clientId\<close> is adopted: the handler goes on
  exactly as it does, from the world after the lookup, for the same request carrying that
  \<^verbatim>\<open>client_id\<close>.
\<close>

theorem client_id_fallback:
  assumes grant: "body_grant_type body = JString ''authorization_code''"
    and c: "body_code body = JString c" "c \<noteq> []"
    and ru: "body_redirect_uri body = JString ru" "ru \<noteq> []"
    and cv: "body_code_verifier body = JString cv" "cv \<noteq> []"
    and absent: "\<not> truthy (body_client_id body) \<or> \<not> typeof_string (body_client_id body)"
    and lookup: "getAuthCode c w = (found, w1)"
  shows "(found = None \<longrightarrow>
           handleToken sha config body w
             = (JsonError 400 ''invalid_request'' ''Missing or invalid client_id'', w1))
       \<and> (\<forall>stored. found = Some stored \<and> clientId stored \<noteq> [] \<longrightarrow>
           token_resolve body w = (Inr (clientId stored), w1)
           \<and> handleToken sha config body w
               = handleToken sha config (body\<lparr>body_client_id := JString (clientId stored)\<rparr>) w1)"
proof -
  have res: "token_resolve body w =
      (case found of
         None \<Rightarrow> (Inl (sendError ''invalid_request'' ''Missing or invalid client_id''), w1)
       | Some stored \<Rightarrow>
           if clientId stored \<noteq> [] then (Inr (clientId stored), w1)
           else (Inl (sendError ''invalid_request'' ''Missing or invalid client_id''), w1))"
    using assms by (auto simp: token_resolve_def split: option.splits)
  have none: "found = None \<longrightarrow>
           handleToken sha config body w
             = (JsonError 400 ''invalid_request'' ''Missing or invalid client_id'', w1)"
    using res by (simp add: handleToken_def sendError_def)
  have some: "token_resolve body w = (Inr (clientId stored), w1)
           \<and> handleToken sha config body w
               = handleToken sha config (body\<lparr>body_client_id := JString (clientId stored)\<rparr>) w1"
    if s: "found = Some stored \<and> clientId stored \<noteq> []" for stored
  proof -
    let ?b = "body\<lparr>body_client_id := JString (clientId stored)\<rparr>"
    have r1: "token_resolve body w = (Inr (clientId stored), w1)"
      using res s by simp
    have r2: "token_resolve ?b w1 = (Inr (clientId stored), w1)"
      using grant c ru cv s by (simp add: token_resolve_def)
    show ?thesis
      using r1 r2
      by (simp add: handleToken_def token_authenticate_client_id token_redeem_client_id
          cong: prod.case_cong sum.case_cong)
  qed
  from none some show ?thesis by blast
qed

text \<open>
  Without \<^verbatim>\<open>client_id\<close> the issued code is redeemed for the client it was issued to; once
  the code is gone the same request fails with \<^verbatim>\<open>invalid_request\<close>.
\<close>

theorem client_id_fallback_witness:
  "token_resolve (ex_body\<lparr>body_client_id := JUndefined\<rparr>) ex_world_issued
     = (Inr ex_client_id,
        ex_world_issued\<lparr>trace := trace ex_world_issued @ [(SelectCode ex_code, False)]\<rparr>)
   \<and> fst (handleToken ex_sha256 ex_config (ex_body\<lparr>body_client_id := JUndefined\<rparr>) ex_world_issued)
       = JsonToken ex_token_response
   \<and> fst (handleToken ex_sha256 ex_config (ex_body\<lparr>body_client_id := JUndefined\<rparr>) ex_world_redeemed)
       = JsonError 400 ''invalid_request'' ''Missing or invalid client_id''"
  using client_id_fallback [where body = "ex_body\<lparr>body_client_id := JUndefined\<rparr>"
      and c = ex_code and ru = "''http://localhost:9999/cb''" and cv = ex_verifier
      and w = ex_world_issued and found = "Some ex_stored" and sha = ex_sha256 and config = ex_config
      and ?w1.0 = "ex_world_issued\<lparr>trace := trace ex_world_issued @ [(SelectCode ex_code, False)]\<rparr>"]
    client_id_fallback [where body = "ex_body\<lparr>body_client_id := JUndefined\<rparr>"
      and c = ex_code and ru = "''http://localhost:9999/cb''" and cv = ex_verifier
      and w = ex_world_redeemed and found = None and sha = ex_sha256 and config = ex_config
      and ?w1.0 = "ex_world_redeemed\<lparr>trace := trace ex_world_redeemed @ [(SelectCode ex_code, False)]\<rparr>"]
  by (simp add: token_eval ex_eval ex_world_redeemed_def ex_token_response_def ex_success_log_def)

text \<open>
  Claim C1 as stated fails three times. The \<^verbatim>\<open>DELETE\<close> that consumes a code may throw;
  \<^verbatim>\<open>deleteAuthCode\<close> swallows the error, the token is returned all the same, and the code
  is redeemed again. The token handler does not wait for the \<^verbatim>\<open>DELETE\<close>: the same request
  arriving after the token was returned and before the database has run the \<^verbatim>\<open>DELETE\<close>
  gets a token too. And a later request presenting a consumed code is answered by the
  first check it fails, which need not be the code fetch: without \<^verbatim>\<open>client_id\<close> it is
  answered \<^verbatim>\<open>invalid_request\<close>.
\<close>

theorem second_redemption_counterexample:
  "fst (handleToken ex_sha256 ex_config ex_body
          (ex_world_issued\<lparr>schedule := [(False, 0), (False, 0), (True, 0)]\<rparr>))
     = JsonToken ex_token_response
   \<and> fst (handleToken ex_sha256 ex_config ex_body
            (run_deletes
              (snd (handleToken ex_sha256 ex_config ex_body
                      (ex_world_issued\<lparr>schedule := [(False, 0), (False, 0), (True, 0)]\<rparr>)))))
       = JsonToken ex_token_response
   \<and> fst (handleToken ex_sha256 ex_config ex_body ex_world_issued) = JsonToken ex_token_response
   \<and> fst (handleToken ex_sha256 ex_config ex_body
            (snd (handleToken ex_sha256 ex_config ex_body ex_world_issued)))
       = JsonToken ex_token_response
   \<and> fst (handleToken ex_sha256 ex_config (ex_body\<lparr>body_client_id := JUndefined\<rparr>)
            (run_deletes (snd (handleToken ex_sha256 ex_config ex_body ex_world_issued))))
       = JsonError 400 ''invalid_request'' ''Missing or invalid client_id''"
  by (simp add: ex_token ex_token_delete_fails ex_token_again ex_token_in_flight ex_deletes_run
      ex_delete_failed_settled ex_token_second_no_client_id)

text \<open>
  Claim C1, amended. When a token request returns an access token and the \<^verbatim>\<open>DELETE\<close> it sent
  for its code does not fail, then once the database has run that \<^verbatim>\<open>DELETE\<close>, whatever
  requests to the token, authorize and registration endpoints come in between, whatever
  time passes and whichever queries fail, provided no authorize request issues the same
  code again: every token request presenting the same code is answered with an error of
  status 400 and no access token; and when that request passes the checks that precede
  the code fetch, the error is \<^verbatim>\<open>invalid_grant\<close>.
\<close>

theorem consumed_code_not_redeemable:
  assumes first: "handleToken sha config body w = (JsonToken t, w1)"
    and deleted: "(DeleteCode (string_of (body_code body)), False) \<in> set (sent w w1)"
    and ran: "DeletesRun \<in> set evs"
    and fresh: "\<forall>e \<in> set evs. may_issue e \<noteq> Some (string_of (body_code body))"
    and later: "w2 = run sha parseURL config evs w1"
    and same: "body_code body2 = body_code body"
  shows "(\<exists>e d. fst (handleToken sha config body2 w2) = JsonError 400 e d)
       \<and> (\<forall>cid w3 w4. token_resolve body2 w2 = (Inr cid, w3)
             \<and> token_authenticate config body2 cid w3 = (Inr (), w4)
             \<and> validateCodeVerifier (string_of (body_code_verifier body2)) \<longrightarrow>
           fst (handleToken sha config body2 w2)
             = JsonError 400 ''invalid_grant'' ''Invalid or expired authorization code'')"
proof -
  let ?c = "string_of (body_code body2)"
  have "?c \<in> set (in_flight w1)"
    using handleToken_in_flight[OF first deleted] same by simp
  then have absent: "\<not> has_code ?c w2"
    using run_deleted[of ?c w1 evs sha parseURL config] ran fresh same later by simp
  have "\<forall>cid w3 w4. token_resolve body2 w2 = (Inr cid, w3)
             \<and> token_authenticate config body2 cid w3 = (Inr (), w4)
             \<and> validateCodeVerifier (string_of (body_code_verifier body2)) \<longrightarrow>
           fst (handleToken sha config body2 w2)
             = JsonError 400 ''invalid_grant'' ''Invalid or expired authorization code''"
  proof (intro allI impI)
    fix cid w3 w4
    assume a: "token_resolve body2 w2 = (Inr cid, w3)
             \<and> token_authenticate config body2 cid w3 = (Inr (), w4)
             \<and> validateCodeVerifier (string_of (body_code_verifier body2))"
    then have "quiet w2 w4"
      using quiet_token_resolve quiet_token_authenticate by (blast intro: quiet_trans)
    with absent have "\<not> has_code ?c w4" by (simp add: quiet_has_code)
    from token_redeem_absent[OF this, of sha config cid] a
    show "fst (handleToken sha config body2 w2)
             = JsonError 400 ''invalid_grant'' ''Invalid or expired authorization code''"
      by (simp add: handleToken_stages)
  qed
  with handleToken_absent[OF absent] show ?thesis by blast
qed

text \<open>
  The issued code is redeemed; then another code is issued to the same client, the
  database runs the \<^verbatim>\<open>DELETE\<close>, a second passes; the first code, presented again by the
  same request, is refused.
\<close>

theorem consumed_code_not_redeemable_witness:
  "handleToken ex_sha256 ex_config ex_body ex_world_issued
     = (JsonToken ex_token_response, ex_world_answered)
   \<and> (DeleteCode ex_code, False) \<in> set (sent ex_world_issued ex_world_answered)
   \<and> has_code (generateAuthCode 4)
        (run ex_sha256 ex_parseURL ex_config
           [AuthorizeRequest 4 ex_query True ''/oauth/authorize'', DeletesRun, Elapse 1000]
           ex_world_answered)
   \<and> fst (handleToken ex_sha256 ex_config ex_body
            (run ex_sha256 ex_parseURL ex_config
               [AuthorizeRequest 4 ex_query True ''/oauth/authorize'', DeletesRun, Elapse 1000]
               ex_world_answered))
       = JsonError 400 ''invalid_grant'' ''Invalid or expired authorization code''"
proof -
  let ?evs = "[AuthorizeRequest 4 ex_query True ''/oauth/authorize'', DeletesRun, Elapse 1000]"
  let ?w2 = "run ex_sha256 ex_parseURL ex_config ?evs ex_world_answered"
  have deleted: "(DeleteCode (string_of (body_code ex_body)), False)
      \<in> set (sent ex_world_issued ex_world_answered)"
    by (simp add: sent_def ex_world_answered_def ex_world_issued_def ex_body_def)
  have fresh: "\<forall>e \<in> set ?evs. may_issue e \<noteq> Some (string_of (body_code ex_body))"
    using ex_other_code by (simp add: ex_body_def)
  have issued: "has_code (generateAuthCode 4) ?w2"
    unfolding ex_run by (simp add: has_code_def)
  have authenticated: "token_authenticate ex_config ex_body ex_client_id ?w2
      = (Inr (), ?w2\<lparr>trace := trace ?w2 @ [(SelectClient ex_client_id, False)]\<rparr>)"
    unfolding ex_run
    by (simp add: token_eval ex_eval ex_world_answered_def)
  have fmt: "validateCodeVerifier (string_of (body_code_verifier ex_body))"
    using ex_validate_verifier by (simp add: ex_body_def)
  have refused: "fst (handleToken ex_sha256 ex_config ex_body ?w2)
      = JsonError 400 ''invalid_grant'' ''Invalid or expired authorization code''"
    using consumed_code_not_redeemable [where sha = ex_sha256 and config = ex_config
        and body = ex_body and w = ex_world_issued and t = ex_token_response
        and ?w1.0 = ex_world_answered and evs = ?evs and parseURL = ex_parseURL
        and ?w2.0 = ?w2 and ?body2.0 = ex_body, OF ex_token deleted _ fresh refl refl]
      ex_token_refused[of ?w2] authenticated fmt
    by (simp del: run.simps)
  from ex_token deleted issued refused show ?thesis by (simp add: ex_body_def)
qed

section \<open>PKCE verification\<close>



section \<open>Authorization requests\<close>

text \<open>
  Claim C6. \<^verbatim>\<open>handleAuthorize\<close> checks, in this order: \<^verbatim>\<open>client_id\<close> is a string that is not
  empty, \<^verbatim>\<open>redirect_uri\<close> is one, \<^verbatim>\<open>response_type\<close> is \<^verbatim>\<open>code\<close>, \<^verbatim>\<open>code_challenge\<close> is a string
  that is not empty, \<^verbatim>\<open>code_challenge_method\<close> is \<^verbatim>\<open>S256\<close>, \<^verbatim>\<open>code_challenge\<close> has the PKCE
  format. The first check that fails decides the answer, whatever the later parameters
  are: status 400 with the error code and description of that check, and no query sent.
  A request passing all six goes on to the client check.
\<close>

theorem authorize_validation_order:
  \<open>(\<not> (truthy (q_client_id q) \<and> typeof_string (q_client_id q)) \<longrightarrow>
      handleAuthorize parseURL config random q authenticated originalUrl w
        = (JsonError 400 ''invalid_request'' ''Missing or invalid client_id'', w))
   \<and> (truthy (q_client_id q) \<and> typeof_string (q_client_id q)
       \<and> \<not> (truthy (q_redirect_uri q) \<and> typeof_string (q_redirect_uri q)) \<longrightarrow>
      handleAuthorize parseURL config random q authenticated originalUrl w
        = (JsonError 400 ''invalid_request'' ''Missing or invalid redirect_uri'', w))
   \<and> (truthy (q_client_id q) \<and> typeof_string (q_client_id q)
       \<and> truthy (q_redirect_uri q) \<and> typeof_string (q_redirect_uri q)
       \<and> q_response_type q \<noteq> JString ''code'' \<longrightarrow>
      handleAuthorize parseURL config random q authenticated originalUrl w
        = (JsonError 400 ''unsupported_response_type'' ''Only "code" response_type is supported'', w))
   \<and> (truthy (q_client_id q) \<and> typeof_string (q_client_id q)
       \<and> truthy (q_redirect_uri q) \<and> typeof_string (q_redirect_uri q)
       \<and> q_response_type q = JString ''code''
       \<and> \<not> (truthy (q_code_challenge q) \<and> typeof_string (q_code_challenge q)) \<longrightarrow>
      handleAuthorize parseURL config random q authenticated originalUrl w
        = (JsonError 400 ''invalid_request'' ''Missing or invalid code_challenge'', w))
   \<and> (truthy (q_client_id q) \<and> typeof_string (q_client_id q)
       \<and> truthy (q_redirect_uri q) \<and> typeof_string (q_redirect_uri q)
       \<and> q_response_type q = JString ''code''
       \<and> truthy (q_code_challenge q) \<and> typeof_string (q_code_challenge q)
       \<and> q_code_challenge_method q \<noteq> JString ''S256'' \<longrightarrow>
      handleAuthorize parseURL config random q authenticated originalUrl w
        = (JsonError 400 ''invalid_request'' ''Only "S256" code_challenge_method is supported'', w))
   \<and> (truthy (q_client_id q) \<and> typeof_string (q_client_id q)
       \<and> truthy (q_redirect_uri q) \<and> typeof_string (q_redirect_uri q)
       \<and> q_response_type q = JString ''code''
       \<and> truthy (q_code_challenge q) \<and> typeof_string (q_code_challenge q)
       \<and> q_code_challenge_method q = JString ''S256''
       \<and> \<not> validateCodeChallenge (string_of (q_code_challenge q)) \<longrightarrow>
      handleAuthorize parseURL config random q authenticated originalUrl w
        = (JsonError 400 ''invalid_request'' ''Invalid code_challenge format'', w))
   \<and> (truthy (q_client_id q) \<and> typeof_string (q_client_id q)
       \<and> truthy (q_redirect_uri q) \<and> typeof_string (q_redirect_uri q)
       \<and> q_response_type q = JString ''code''
       \<and> truthy (q_code_challenge q) \<and> typeof_string (q_code_challenge q)
       \<and> q_code_challenge_method q = JString ''S256''
       \<and> validateCodeChallenge (string_of (q_code_challenge q)) \<longrightarrow>
      authorize_validate q = None)\<close>
  by (auto simp: handleAuthorize_def authorize_validate_def sendError_def)

text \<open>
  Requests that fail two checks are answered by the earlier one; the last request
  passes all six.
\<close>

theorem authorize_validation_order_witness:
  \<open>handleAuthorize ex_parseURL ex_config 3
       (ex_query\<lparr>q_client_id := JUndefined, q_response_type := JString ''token''\<rparr>)
       True ''/oauth/authorize'' ex_world_registered
     = (JsonError 400 ''invalid_request'' ''Missing or invalid client_id'', ex_world_registered)
   \<and> handleAuthorize ex_parseURL ex_config 3
       (ex_query\<lparr>q_redirect_uri := JOther True, q_code_challenge := JUndefined\<rparr>)
       True ''/oauth/authorize'' ex_world_registered
     = (JsonError 400 ''invalid_request'' ''Missing or invalid redirect_uri'', ex_world_registered)
   \<and> handleAuthorize ex_parseURL ex_config 3
       (ex_query\<lparr>q_response_type := JString ''token'', q_code_challenge_method := JString ''plain''\<rparr>)
       True ''/oauth/authorize'' ex_world_registered
     = (JsonError 400 ''unsupported_response_type'' ''Only "code" response_type is supported'',
        ex_world_registered)
   \<and> handleAuthorize ex_parseURL ex_config 3
       (ex_query\<lparr>q_code_challenge := JString [], q_code_challenge_method := JUndefined\<rparr>)
       True ''/oauth/authorize'' ex_world_registered
     = (JsonError 400 ''invalid_request'' ''Missing or invalid code_challenge'', ex_world_registered)
   \<and> handleAuthorize ex_parseURL ex_config 3
       (ex_query\<lparr>q_code_challenge := JString ''short'', q_code_challenge_method := JString ''plain''\<rparr>)
       True ''/oauth/authorize'' ex_world_registered
     = (JsonError 400 ''invalid_request'' ''Only "S256" code_challenge_method is supported'',
        ex_world_registered)
   \<and> handleAuthorize ex_parseURL ex_config 3
       (ex_query\<lparr>q_code_challenge := JString ''short''\<rparr>)
       True ''/oauth/authorize'' ex_world_registered
     = (JsonError 400 ''invalid_request'' ''Invalid code_challenge format'', ex_world_registered)
   \<and> authorize_validate ex_query = None\<close>
  using
    authorize_validation_order [where q = "ex_query\<lparr>q_client_id := JUndefined, q_response_type := JString ''token''\<rparr>"
      and parseURL = ex_parseURL and config = ex_config and random = 3 and authenticated = True
      and originalUrl = "''/oauth/authorize''" and w = ex_world_registered]
    authorize_validation_order [where q = "ex_query\<lparr>q_redirect_uri := JOther True, q_code_challenge := JUndefined\<rparr>"
      and parseURL = ex_parseURL and config = ex_config and random = 3 and authenticated = True
      and originalUrl = "''/oauth/authorize''" and w = ex_world_registered]
    authorize_validation_order [where q = "ex_query\<lparr>q_response_type := JString ''token'', q_code_challenge_method := JString ''plain''\<rparr>"
      and parseURL = ex_parseURL and config = ex_config and random = 3 and authenticated = True
      and originalUrl = "''/oauth/authorize''" and w = ex_world_registered]
    authorize_validation_order [where q = "ex_query\<lparr>q_code_challenge := JString [], q_code_challenge_method := JUndefined\<rparr>"
      and parseURL = ex_parseURL and config = ex_config and random = 3 and authenticated = True
      and originalUrl = "''/oauth/authorize''" and w = ex_world_registered]
    authorize_validation_order [where q = "ex_query\<lparr>q_code_challenge := JString ''short'', q_code_challenge_method := JString ''plain''\<rparr>"
      and parseURL = ex_parseURL and config = ex_config and random = 3 and authenticated = True
      and originalUrl = "''/oauth/authorize''" and w = ex_world_registered]
    authorize_validation_order [where q = "ex_query\<lparr>q_code_challenge := JString ''short''\<rparr>"
      and parseURL = ex_parseURL and config = ex_config and random = 3 and authenticated = True
      and originalUrl = "''/oauth/authorize''" and w = ex_world_registered]
    authorize_validation_order [where q = ex_query
      and parseURL = ex_parseURL and config = ex_config and random = 3 and authenticated = True
      and originalUrl = "''/oauth/authorize''" and w = ex_world_registered]
  by (simp add: ex_query_def ex_challenge_def ex_client_id_def validateCodeChallenge_def validChar_def)

text \<open>
  Claim C5. For a request that has passed the parameter checks and the client check:
  if \<^verbatim>\<open>client_id\<close> is the configured static client id, the answer is \<^verbatim>\<open>invalid_request\<close>
  ("Unauthorized redirect_uri") exactly when \<^verbatim>\<open>redirect_uri\<close> starts with none of the
  configured prefixes (by default \<^verbatim>\<open>https://claude.ai/\<close> and \<^verbatim>\<open>http://localhost:\<close>); otherwise
  it is that answer exactly when the registry lookup does not return a client whose
  registered \<^verbatim>\<open>redirect_uris\<close> contain \<^verbatim>\<open>redirect_uri\<close> itself.
\<close>

theorem redirect_uri_validation:
  assumes valid: "authorize_validate q = None"
    and known: "isValidClientId (string_of (q_client_id q)) (cfg_clientId config) w = (True, w1)"
  shows "(string_of (q_client_id q) = cfg_clientId config \<longrightarrow>
           (fst (handleAuthorize parseURL config random q authenticated originalUrl w)
              = JsonError 400 ''invalid_request'' ''Unauthorized redirect_uri'')
           = (\<not> (\<exists>p \<in> set (case allowedRedirectPrefixes config of
                               None \<Rightarrow> [''https://claude.ai/'', ''http://localhost:'']
                             | Some l \<Rightarrow> l).
                   prefix p (string_of (q_redirect_uri q)))))
       \<and> (string_of (q_client_id q) \<noteq> cfg_clientId config \<longrightarrow>
           (fst (handleAuthorize parseURL config random q authenticated originalUrl w)
              = JsonError 400 ''invalid_request'' ''Unauthorized redirect_uri'')
           = (\<not> (\<exists>cl. fst (getClient (string_of (q_client_id q)) w1) = Some cl
                       \<and> string_of (q_redirect_uri q) \<in> set (redirect_uris cl))))"
proof -
  let ?cid = "string_of (q_client_id q)" and ?ru = "string_of (q_redirect_uri q)"
  let ?H = "fst (handleAuthorize parseURL config random q authenticated originalUrl w)"
  let ?E = "JsonError 400 ''invalid_request'' ''Unauthorized redirect_uri''"
  obtain ok w2 where check: "authorize_redirect_check config ?cid ?ru w1 = (ok, w2)"
    by (cases "authorize_redirect_check config ?cid ?ru w1")
  obtain a w3 where approve: "approveAndRedirect parseURL random
        \<lparr>ar_client_id = ?cid, ar_redirect_uri = ?ru,
         ar_response_type = string_of (q_response_type q),
         ar_code_challenge = string_of (q_code_challenge q),
         ar_code_challenge_method = string_of (q_code_challenge_method q),
         ar_state = (if typeof_string (q_state q) then Some (string_of (q_state q)) else None),
         ar_scope = (if typeof_string (q_scope q) then Some (string_of (q_scope q)) else None)\<rparr>
        w2 = (a, w3)"
    by (cases "approveAndRedirect parseURL random
        \<lparr>ar_client_id = ?cid, ar_redirect_uri = ?ru,
         ar_response_type = string_of (q_response_type q),
         ar_code_challenge = string_of (q_code_challenge q),
         ar_code_challenge_method = string_of (q_code_challenge_method q),
         ar_state = (if typeof_string (q_state q) then Some (string_of (q_state q)) else None),
         ar_scope = (if typeof_string (q_scope q) then Some (string_of (q_scope q)) else None)\<rparr>
        w2")
  have redirect: "\<exists>u. resp = Redirect u" if "a = Inr resp" for resp
    using approveAndRedirect_cases[OF approve] that by (auto split: option.splits)
  have iff: "(?H = ?E) = (\<not> ok)"
    using handleAuthorize_steps[OF valid known check approve, of authenticated originalUrl] redirect
    by (cases a) auto
  have static: "ok = (\<exists>p \<in> set (case allowedRedirectPrefixes config of
                               None \<Rightarrow> [''https://claude.ai/'', ''http://localhost:'']
                             | Some l \<Rightarrow> l). prefix p ?ru)"
    if "?cid = cfg_clientId config"
    using check that
    by (auto simp: authorize_redirect_check_def isValidRedirectUri_def default_prefixes_def
        list_ex_iff Let_def split: option.splits)
  have dynamic: "ok = (\<exists>cl. fst (getClient ?cid w1) = Some cl \<and> ?ru \<in> set (redirect_uris cl))"
    if "?cid \<noteq> cfg_clientId config"
    using check that
    by (cases "getClient ?cid w1")
       (auto simp: authorize_redirect_check_def Let_def split: option.splits)
  from iff static dynamic show ?thesis by simp
qed

text \<open>
  The static client is let through with \<^verbatim>\<open>https://claude.ai/callback\<close>, registered nowhere,
  and refused with a URI outside the prefixes. The registered client is let through with
  its registered URI and refused with a URI that merely extends it.
\<close>

theorem redirect_uri_validation_witness:
  "fst (handleAuthorize ex_parseURL ex_config 3 ex_static_query False ''/oauth/authorize'' ex_world0)
     = RenderLogin ''/oauth/authorize''
   \<and> fst (handleAuthorize ex_parseURL ex_config 3
            (ex_static_query\<lparr>q_redirect_uri := JString ''https://evil.example/cb''\<rparr>)
            False ''/oauth/authorize'' ex_world0)
       = JsonError 400 ''invalid_request'' ''Unauthorized redirect_uri''
   \<and> fst (handleAuthorize ex_parseURL ex_config 3 ex_query False ''/oauth/authorize''
            ex_world_registered)
       = RenderLogin ''/oauth/authorize''
   \<and> fst (handleAuthorize ex_parseURL ex_config 3
            (ex_query\<lparr>q_redirect_uri := JString ''http://localhost:9999/cb2''\<rparr>)
            False ''/oauth/authorize'' ex_world_registered)
       = JsonError 400 ''invalid_request'' ''Unauthorized redirect_uri''"
  using
    redirect_uri_validation [where q = ex_static_query and config = ex_config and w = ex_world0
      and ?w1.0 = ex_world0 and parseURL = ex_parseURL and random = 3 and authenticated = False
      and originalUrl = "''/oauth/authorize''"]
    redirect_uri_validation [where q = "ex_query\<lparr>q_redirect_uri := JString ''http://localhost:9999/cb2''\<rparr>"
      and config = ex_config and w = ex_world_registered
      and ?w1.0 = "ex_world_registered\<lparr>trace := trace ex_world_registered @ [(SelectClient ex_client_id, False)]\<rparr>"
      and parseURL = ex_parseURL and random = 3 and authenticated = False
      and originalUrl = "''/oauth/authorize''"]
  by (simp add: authorize_eval ex_static_query_def ex_query_def ex_challenge_def ex_client_id_def
      ex_config_def ex_world0_def ex_world_registered_def ex_client_def)

text \<open>
  Claim C9 as stated fails for a request whose \<^verbatim>\<open>state\<close> is
  the empty string: \<^verbatim>\<open>approveAndRedirect\<close> sets the parameter only when \<^verbatim>\<open>authReq.state\<close> is
  truthy, so the redirect carries no \<^verbatim>\<open>state\<close>.
\<close>

theorem empty_state_counterexample:
  "handleAuthorize ex_parseURL ex_config 3 (ex_query\<lparr>q_state := JString []\<rparr>) True
       ''/oauth/authorize'' ex_world_registered
     = (Redirect \<lparr>protocol = ''http:'', hostname = ''localhost'',
                  url_rest = ''http://localhost:9999/cb'',
                  searchParams = [(''code'', ex_code)]\<rparr>, ex_world_issued)
   \<and> searchParams_get ''state'' [(''code'', ex_code)] = None"
  by (simp add: authorize_eval ex_query_def ex_challenge_def ex_client_id_def ex_config_def
      ex_world_registered_def ex_client_def ex_parseURL_def ex_world_issued_def ex_stored_def
      ex_code_def)

text \<open>
  Claim C9, amended. When a request that passed the parameter checks has a code issued (a row
  is added to the table) and its \<^verbatim>\<open>redirect_uri\<close> parses as a URL, the answer is a redirect
  to that URL with the query parameter \<^verbatim>\<open>code\<close> set to the issued code, the code of the row
  added; when \<^verbatim>\<open>state\<close> was supplied as a string that is not empty, the parameter \<^verbatim>\<open>state\<close>
  of the redirect URL has that string as its value, unmodified; otherwise nothing but
  \<^verbatim>\<open>code\<close> is set. (The URL is kept parsed: how \<^verbatim>\<open>URL.toString\<close> percent-encodes the value
  is outside the model.)
\<close>

theorem redirect_carries_code_and_state:
  assumes valid: "authorize_validate q = None"
    and run: "handleAuthorize parseURL config random q authenticated originalUrl w = (resp, w')"
    and issued: "authorization_codes w' \<noteq> authorization_codes w"
    and parse: "parseURL (string_of (q_redirect_uri q)) = Some u"
  shows "\<exists>target. resp = Redirect target
      \<and> protocol target = protocol u \<and> hostname target = hostname u
      \<and> url_rest target = url_rest u
      \<and> searchParams_get ''code'' (searchParams target) = Some (generateAuthCode random)
      \<and> (\<exists>row. authorization_codes w' = authorization_codes w @ [row]
             \<and> code row = generateAuthCode random
             \<and> clientId row = string_of (q_client_id q)
             \<and> redirectUri row = string_of (q_redirect_uri q))
      \<and> (\<forall>s. q_state q = JString s \<and> s \<noteq> [] \<longrightarrow>
             searchParams_get ''state'' (searchParams target) = Some s)
      \<and> (\<not> (\<exists>s. q_state q = JString s \<and> s \<noteq> []) \<longrightarrow>
             searchParams target
               = searchParams_set ''code'' (generateAuthCode random) (searchParams u))"
proof -
  let ?cid = "string_of (q_client_id q)" and ?ru = "string_of (q_redirect_uri q)"
  let ?c = "generateAuthCode random"
  let ?req = "\<lparr>ar_client_id = ?cid, ar_redirect_uri = ?ru,
         ar_response_type = string_of (q_response_type q),
         ar_code_challenge = string_of (q_code_challenge q),
         ar_code_challenge_method = string_of (q_code_challenge_method q),
         ar_state = (if typeof_string (q_state q) then Some (string_of (q_state q)) else None),
         ar_scope = (if typeof_string (q_scope q) then Some (string_of (q_scope q)) else None)\<rparr>"
  obtain k w1 where known: "isValidClientId ?cid (cfg_clientId config) w = (k, w1)"
    by (cases "isValidClientId ?cid (cfg_clientId config) w")
  obtain ok w2 where check: "authorize_redirect_check config ?cid ?ru w1 = (ok, w2)"
    by (cases "authorize_redirect_check config ?cid ?ru w1")
  obtain a w3 where approve: "approveAndRedirect parseURL random ?req w2 = (a, w3)"
    by (cases "approveAndRedirect parseURL random ?req w2")
  note steps = handleAuthorize_steps[OF valid known check approve, of authenticated originalUrl]
  have c1: "authorization_codes w1 = authorization_codes w"
    using isValidClientId_codes[OF known] .
  have c2: "authorization_codes w2 = authorization_codes w"
    using authorize_redirect_check_codes[OF check] c1 by simp
  from steps run issued c1 c2 have path: "k" "ok" "authenticated"
    by (auto split: if_splits)
  with steps run have r: "(resp, w') =
      (case a of Inl e \<Rightarrow> (JsonError 400 ''server_error'' ''Internal server error'', w3)
               | Inr resp \<Rightarrow> (resp, w3))"
    by simp
  then have w': "w' = w3" by (cases a) auto
  from approveAndRedirect_cases[OF approve] issued w' c2 parse
  obtain row where row: "authorization_codes w' = authorization_codes w @ [row]"
      "code row = ?c" "clientId row = ?cid" "redirectUri row = ?ru"
    and a: "a = Inr (Redirect
                    (u\<lparr>searchParams :=
                        (case ar_state ?req of
                           None \<Rightarrow> searchParams_set ''code'' ?c (searchParams u)
                         | Some s \<Rightarrow>
                             if s \<noteq> [] then
                               searchParams_set ''state'' s
                                 (searchParams_set ''code'' ?c (searchParams u))
                             else searchParams_set ''code'' ?c (searchParams u))\<rparr>))"
    by auto
  let ?target = "u\<lparr>searchParams :=
                        (case ar_state ?req of
                           None \<Rightarrow> searchParams_set ''code'' ?c (searchParams u)
                         | Some s \<Rightarrow>
                             if s \<noteq> [] then
                               searchParams_set ''state'' s
                                 (searchParams_set ''code'' ?c (searchParams u))
                             else searchParams_set ''code'' ?c (searchParams u))\<rparr>"
  from r a have resp: "resp = Redirect ?target" by simp
  have code: "searchParams_get ''code'' (searchParams ?target) = Some ?c"
    by (cases "q_state q") (simp_all add: searchParams_get_set_other)
  have state: "\<forall>s. q_state q = JString s \<and> s \<noteq> [] \<longrightarrow>
             searchParams_get ''state'' (searchParams ?target) = Some s"
    by auto
  have nostate: "\<not> (\<exists>s. q_state q = JString s \<and> s \<noteq> []) \<longrightarrow>
             searchParams ?target = searchParams_set ''code'' ?c (searchParams u)"
    by (cases "q_state q") simp_all
  have "protocol ?target = protocol u \<and> hostname ?target = hostname u
      \<and> url_rest ?target = url_rest u" by simp
  with resp code row state nostate show ?thesis by blast
qed

text \<open>The registered client, authenticated, with \<^verbatim>\<open>state=xyz\<close>.\<close>

theorem redirect_carries_code_and_state_witness:
  "handleAuthorize ex_parseURL ex_config 3 ex_query True ''/oauth/authorize'' ex_world_registered
     = (Redirect \<lparr>protocol = ''http:'', hostname = ''localhost'',
                  url_rest = ''http://localhost:9999/cb'',
                  searchParams = [(''code'', ex_code), (''state'', ''xyz'')]\<rparr>, ex_world_issued)
   \<and> authorization_codes ex_world_issued = authorization_codes ex_world_registered @ [ex_stored]
   \<and> code ex_stored = generateAuthCode 3
   \<and> searchParams_get ''code'' [(''code'', ex_code), (''state'', ''xyz'')] = Some ex_code
   \<and> searchParams_get ''state'' [(''code'', ex_code), (''state'', ''xyz'')] = Some ''xyz''"
  using redirect_carries_code_and_state [where q = ex_query and parseURL = ex_parseURL
      and config = ex_config and random = 3 and authenticated = True
      and originalUrl = "''/oauth/authorize''" and w = ex_world_registered
      and w' = ex_world_issued
      and u = "\<lparr>protocol = ''http:'', hostname = ''localhost'',
                  url_rest = ''http://localhost:9999/cb'', searchParams = []\<rparr>"
      and resp = "Redirect \<lparr>protocol = ''http:'', hostname = ''localhost'',
                  url_rest = ''http://localhost:9999/cb'',
                  searchParams = [(''code'', ex_code), (''state'', ''xyz'')]\<rparr>"]
  by (simp add: authorize_eval ex_query_def ex_challenge_def ex_client_id_def ex_config_def
      ex_world_registered_def ex_client_def ex_parseURL_def ex_world_issued_def ex_stored_def
      ex_code_def)

section \<open>Client registration\<close>

text \<open>
  Claim C8 as stated fails for a client registered with
  \<^verbatim>\<open>token_endpoint_auth_method\<close> \<^verbatim>\<open>none\<close>: \<^verbatim>\<open>registerClient\<close> generates and stores a secret for
  every client, and \<^verbatim>\<open>handleRegister\<close> returns it.
\<close>

theorem public_client_secret_counterexample:
  "handleRegister ex_parseURL 1 2 ex_registration ex_world0
     = (JsonCreated ex_registration_response, ex_world_registered)
   \<and> resp_token_endpoint_auth_method ex_registration_response = ''none''
   \<and> resp_client_secret ex_registration_response = ''AAAAAAAAAAAAAAAAAAAAAAAAAAAAAAAAAAAAAAAAAAI''
   \<and> map client_secret (oauth_clients ex_world_registered)
       = [''AAAAAAAAAAAAAAAAAAAAAAAAAAAAAAAAAAAAAAAAAAI'']"
  by (simp add: ex_register ex_registration_response_def ex_world_registered_def ex_client_def)

text \<open>
  Claim C8, amended. A client returned by \<^verbatim>\<open>registerClient\<close>, and the response of a successful
  registration, carry as secret the base64url encoding of the 32 random bytes, 43
  characters long, whatever the authentication method; the client stored has that secret
  and the method of the response.
\<close>

theorem registered_client_secret:
  "(registerClient randomId randomSecret clientName redirectUris authMethod grantTypes
        responseTypes scp w = (Inr client, w1) \<longrightarrow>
      client_secret client = base64url (buffer_bytes randomSecret)
      \<and> length (client_secret client) = 43
      \<and> token_endpoint_auth_method client = authMethod
      \<and> oauth_clients w1 = oauth_clients w @ [client])
   \<and> (handleRegister parseURL randomId randomSecret req w = (JsonCreated r, w2) \<longrightarrow>
      resp_client_secret r = base64url (buffer_bytes randomSecret)
      \<and> length (resp_client_secret r) = 43
      \<and> (\<exists>client. oauth_clients w2 = oauth_clients w @ [client]
             \<and> client_secret client = resp_client_secret r
             \<and> token_endpoint_auth_method client = resp_token_endpoint_auth_method r))"
proof -
  have len: "length (base64url (buffer_bytes randomSecret)) = 43"
    by (simp add: length_base64url length_buffer_bytes)
  have reg: "client_secret client = base64url (buffer_bytes randomSecret)
      \<and> length (client_secret client) = 43
      \<and> token_endpoint_auth_method client = authMethod
      \<and> oauth_clients w1 = oauth_clients w @ [client]"
    if "registerClient randomId randomSecret clientName redirectUris authMethod grantTypes
        responseTypes scp w = (Inr client, w1)"
      for client w1 clientName redirectUris authMethod grantTypes responseTypes scp
  proof -
    obtain f w0 where q: "pool_query (InsertClient (generateClientId randomId)) w = (f, w0)"
      by (cases "pool_query (InsertClient (generateClientId randomId)) w")
    from that q pool_query_effect(2)[OF q] len show ?thesis
      by (cases f) (auto simp: registerClient_def generateClientSecret_def Let_def)
  qed
  have hr: "resp_client_secret r = base64url (buffer_bytes randomSecret)
      \<and> length (resp_client_secret r) = 43
      \<and> (\<exists>client. oauth_clients w2 = oauth_clients w @ [client]
             \<and> client_secret client = resp_client_secret r
             \<and> token_endpoint_auth_method client = resp_token_endpoint_auth_method r)"
    if h: "handleRegister parseURL randomId randomSecret req w = (JsonCreated r, w2)"
  proof -
    from handleRegister_created[OF h] obtain client cn rus am gts rts sc where
      rc: "registerClient randomId randomSecret cn rus am gts rts sc w = (Inr client, w2)"
      and r: "resp_client_secret r = client_secret client"
        "resp_token_endpoint_auth_method r = token_endpoint_auth_method client"
      by blast
    from reg[OF rc] r show ?thesis by auto
  qed
  from reg hr show ?thesis by blast
qed

text \<open>The public client of the deployment, registered with the random bytes 1 and 2.\<close>

theorem registered_client_secret_witness:
  "handleRegister ex_parseURL 1 2 ex_registration ex_world0
     = (JsonCreated ex_registration_response, ex_world_registered)
   \<and> resp_client_secret ex_registration_response = base64url (buffer_bytes (2 :: 256 word))
   \<and> length (resp_client_secret ex_registration_response) = 43
   \<and> oauth_clients ex_world_registered = oauth_clients ex_world0 @ [ex_client]
   \<and> client_secret ex_client = resp_client_secret ex_registration_response"
proof -
  have reg: "handleRegister ex_parseURL 1 2 ex_registration ex_world0
     = (JsonCreated ex_registration_response, ex_world_registered)"
    by (simp add: ex_register ex_registration_response_def)
  have enc: "resp_client_secret ex_registration_response = base64url (buffer_bytes (2 :: 256 word))"
    by (simp add: ex_registration_response_def b64_eval)
  have stored: "oauth_clients ex_world_registered = oauth_clients ex_world0 @ [ex_client]"
    "client_secret ex_client = resp_client_secret ex_registration_response"
    by (simp_all add: ex_world_registered_def ex_world0_def ex_client_def ex_registration_response_def)
  have "length (resp_client_secret ex_registration_response) = 43"
    using registered_client_secret [where parseURL = ex_parseURL and randomId = 1
      and randomSecret = 2 and req = ex_registration and w = ex_world0
      and r = ex_registration_response and ?w2.0 = ex_world_registered
      and clientName = None and redirectUris = "[''http://localhost:9999/cb'']"
      and authMethod = "''none''" and grantTypes = "[''authorization_code'']"
      and responseTypes = "[''code'']" and scp = None and client = ex_client
      and ?w1.0 = ex_world_registered] reg
    by blast
  with reg enc stored show ?thesis by simp
qed

end
